theory Spec2Isabelle
  imports Complex_Main "HOL-Library.Log_Nat"
begin

section \<open>Python primitives used by the modelled code\<close>

text \<open>
  A Python \<open>str\<close> is modelled as a \<open>string\<close>: one \<open>char\<close> per character, with the
  character's code point (0..255) as the value of the \<open>char\<close>. Python \<open>int\<close> is \<open>int\<close>.
  The floats on which the code does arithmetic step by step, the latencies and their
  running average, are IEEE doubles (section \<open>Python floats\<close>); the error rate, the
  random draws, the durations and the success rate are real numbers.
\<close>

text \<open>\<open>str.isspace\<close> on one character: the code points below 256 that Python treats as
  white space.\<close>

definition py_isspace :: "char \<Rightarrow> bool" where
  "py_isspace c =
     (let n = of_char c :: nat
      in (9 \<le> n \<and> n \<le> 13) \<or> (28 \<le> n \<and> n \<le> 32) \<or> n = 133 \<or> n = 160)"

text \<open>\<open>s.strip()\<close>: white space removed at both ends.\<close>

definition py_strip :: "string \<Rightarrow> string" where
  "py_strip s = rev (dropWhile py_isspace (rev (dropWhile py_isspace s)))"

text \<open>\<open>s.lower()\<close>: \<open>A\<close>..\<open>Z\<close> and the upper-case letters of Latin-1 (192..222 except the
  multiplication sign 215) move up by 32; every other character stays.\<close>

definition py_lower_char :: "char \<Rightarrow> char" where
  "py_lower_char c =
     (let n = of_char c :: nat
      in if (65 \<le> n \<and> n \<le> 90) \<or> (192 \<le> n \<and> n \<le> 222 \<and> n \<noteq> 215)
         then char_of (n + 32) else c)"

definition py_lower :: "string \<Rightarrow> string" where
  "py_lower s = map py_lower_char s"

text \<open>\<open>s.upper()\<close> restricted to what decides a look-up among ASCII names: \<open>a\<close>..\<open>z\<close>
  move down by 32. (The Latin-1 letters whose upper case is not one character of Latin-1
  never produce an ASCII letter, so they cannot turn a string into a level name.)\<close>

definition py_upper_char :: "char \<Rightarrow> char" where
  "py_upper_char c =
     (let n = of_char c :: nat
      in if 97 \<le> n \<and> n \<le> 122 then char_of (n - 32) else c)"

definition py_upper :: "string \<Rightarrow> string" where
  "py_upper s = map py_upper_char s"

text \<open>\<open>s.startswith(p)\<close>.\<close>

definition py_startswith :: "string \<Rightarrow> string \<Rightarrow> bool" where
  "py_startswith s p = (take (length p) s = p)"

text \<open>\<open>s.split(sep)\<close> for a one-character separator: never an empty list.\<close>

fun py_split :: "char \<Rightarrow> string \<Rightarrow> string list" where
  "py_split sep [] = [[]]"
| "py_split sep (c # cs) =
     (if c = sep then [] # py_split sep cs
      else (case py_split sep cs of
              [] \<Rightarrow> [[c]]
            | l # ls \<Rightarrow> (c # l) # ls))"

text \<open>\<open>xs[:n]\<close>: a negative \<open>n\<close> counts from the end.\<close>

definition py_slice_to :: "'a list \<Rightarrow> int \<Rightarrow> 'a list" where
  "py_slice_to xs n =
     (if 0 \<le> n then take (nat n) xs else take (nat (int (length xs) + n)) xs)"

text \<open>\<open>[x] * n\<close>: empty when \<open>n\<close> is not positive.\<close>

definition py_repeat :: "'a \<Rightarrow> int \<Rightarrow> 'a list" where
  "py_repeat x n = replicate (nat n) x"

section \<open>Configuration\<close>

datatype failure_type = TIMEOUT | DISCONNECT | CORRUPTION | BUFFER_OVERFLOW | CHECKSUM_ERROR

datatype connection_type = SERIAL | USB | USB_SERIAL | NETWORK | BLUETOOTH

fun connection_type_value :: "connection_type \<Rightarrow> string" where
  "connection_type_value SERIAL = ''serial''"
| "connection_type_value USB = ''usb''"
| "connection_type_value USB_SERIAL = ''usb_serial''"
| "connection_type_value NETWORK = ''network''"
| "connection_type_value BLUETOOTH = ''bluetooth''"

text \<open>The fields of \<open>VirtualDisplayConfig\<close> that the emulation core and the test runner
  read. The dataclass validates nothing, so every field ranges over its whole type.\<close>

record config =
  port_name :: string
  connection_type :: connection_type
  baud_rate :: int
  display_lines :: int
  line_length :: int
  artificial_latency :: int
  error_rate :: real
  simulated_failures :: "failure_type list"

section \<open>Display-content processing: the computation of the lines\<close>

text \<open>The loop \<open>while len(lines) < config.display_lines: lines.append("")\<close>.\<close>

function pad_lines :: "string list \<Rightarrow> int \<Rightarrow> string list" where
  "pad_lines lines n =
     (if int (length lines) < n then pad_lines (lines @ [[]]) n else lines)"
  by pat_completeness auto
termination
  by (relation "measure (\<lambda>(ls, n). nat (n - int (length ls)))") auto

declare pad_lines.simps [simp del]

text \<open>The loop \<open>for i, line in enumerate(lines): if len(line) > config.line_length:
  lines[i] = line[:config.line_length]\<close>.\<close>

definition truncate_lines :: "string list \<Rightarrow> int \<Rightarrow> string list" where
  "truncate_lines lines w =
     map (\<lambda>line. if int (length line) > w then py_slice_to line w else line) lines"

text \<open>The value of \<open>lines\<close> that \<open>_process_display_message\<close> stores.\<close>

definition display_message_lines :: "string \<Rightarrow> config \<Rightarrow> string list" where
  "display_message_lines message c =
     (if py_strip message = [] \<or> py_startswith (py_lower message) ''clear''
      then py_repeat [] (display_lines c)
      else
        (let lines0 = py_split CHR 0x0A message;
             lines1 = (if int (length lines0) > display_lines c
                       then py_slice_to lines0 (display_lines c) else lines0);
             lines2 = pad_lines lines1 (display_lines c)
         in truncate_lines lines2 (line_length c)))"

section \<open>Errors\<close>

text \<open>A raised exception: its class and its message. \<open>error_text\<close> is \<open>str(e)\<close>.\<close>

datatype error =
    Exception string
  | ValueError string
  | KeyError string
  | TypeError string
  | AttributeError string
  | ZeroDivisionError string
  | OverflowError string
  | OSError string

fun error_text :: "error \<Rightarrow> string" where
  "error_text (Exception m) = m"
| "error_text (ValueError m) = m"
| "error_text (KeyError k) = [CHR 0x27] @ k @ [CHR 0x27]"
| "error_text (TypeError m) = m"
| "error_text (AttributeError m) = m"
| "error_text (ZeroDivisionError m) = m"
| "error_text (OverflowError m) = m"
| "error_text (OSError m) = m"

text \<open>Sequencing of statements that may raise: the first exception ends the
  sequence.\<close>

definition then_do :: "error + 'a \<Rightarrow> ('a \<Rightarrow> error + 'b) \<Rightarrow> error + 'b" where
  "then_do r f = (case r of Inl e \<Rightarrow> Inl e | Inr x \<Rightarrow> f x)"

section \<open>Python floats\<close>

text \<open>A \<open>float\<close> is an IEEE 754 double: a finite value, an infinity or a NaN. (The
  sign of a zero is not kept: no operation below distinguishes the two zeros.)\<close>

datatype pyfloat = Finite real | PosInf | NegInf | NaN

text \<open>The exponent \<open>e\<close> of the binade of a real \<open>x \<noteq> 0\<close>, with
  \<open>2 ^ e \<le> \<bar>x\<bar> < 2 ^ (e + 1)\<close>, and not below the exponent -1022 of the
  subnormal doubles. \<open>bitlen\<close> is the number of binary digits of a positive integer.\<close>

definition double_exponent :: "real \<Rightarrow> int" where
  "double_exponent x =
     (let a = \<bar>x\<bar>
      in max (- 1022) (if 1 \<le> a then bitlen \<lfloor>a\<rfloor> - 1 else - bitlen (\<lceil>1 / a\<rceil> - 1)))"

text \<open>Rounding to the nearest integer, a tie to the even one.\<close>

definition round_half_even :: "real \<Rightarrow> int" where
  "round_half_even q =
     (let f = \<lfloor>q\<rfloor>; d = q - of_int f
      in if d < 1 / 2 then f
         else if 1 / 2 < d then f + 1
         else if even f then f else f + 1)"

text \<open>Rounding a real to 53 significant binary digits (fewer for a subnormal result),
  with no bound on the exponent above.\<close>

definition round_double :: "real \<Rightarrow> real" where
  "round_double x =
     (if x = 0 then 0
      else (let u = 2 powi (double_exponent x - 52)
            in of_int (round_half_even (x / u)) * u))"

text \<open>The double of an exact result: the rounded value, or an infinity when that is
  \<open>2 ^ 1024\<close> or more in magnitude.\<close>

definition fl :: "real \<Rightarrow> pyfloat" where
  "fl x =
     (let r = round_double x
      in if 2 ^ 1024 \<le> \<bar>r\<bar> then (if x < 0 then NegInf else PosInf) else Finite r)"

text \<open>\<open>a + b\<close> and \<open>a * b\<close> on floats: rounded, overflowing to an infinity without
  an exception.\<close>

fun float_add :: "pyfloat \<Rightarrow> pyfloat \<Rightarrow> pyfloat" where
  "float_add NaN b = NaN"
| "float_add a NaN = NaN"
| "float_add (Finite x) (Finite y) = fl (x + y)"
| "float_add PosInf NegInf = NaN"
| "float_add NegInf PosInf = NaN"
| "float_add PosInf b = PosInf"
| "float_add a PosInf = PosInf"
| "float_add NegInf b = NegInf"
| "float_add a NegInf = NegInf"

fun float_mul :: "pyfloat \<Rightarrow> pyfloat \<Rightarrow> pyfloat" where
  "float_mul NaN b = NaN"
| "float_mul a NaN = NaN"
| "float_mul (Finite x) (Finite y) = fl (x * y)"
| "float_mul (Finite x) b =
     (if x = 0 then NaN else if (x < 0) = (b = NegInf) then PosInf else NegInf)"
| "float_mul a (Finite y) =
     (if y = 0 then NaN else if (y < 0) = (a = NegInf) then PosInf else NegInf)"
| "float_mul a b = (if a = b then PosInf else NegInf)"

text \<open>\<open>a / b\<close> on floats: a zero divisor raises, whatever the dividend.\<close>

fun float_quotient :: "pyfloat \<Rightarrow> pyfloat \<Rightarrow> pyfloat" where
  "float_quotient NaN b = NaN"
| "float_quotient a NaN = NaN"
| "float_quotient (Finite x) (Finite y) = fl (x / y)"
| "float_quotient (Finite x) b = Finite 0"
| "float_quotient a (Finite y) = (if (y < 0) = (a = NegInf) then PosInf else NegInf)"
| "float_quotient a b = NaN"

definition float_div :: "pyfloat \<Rightarrow> pyfloat \<Rightarrow> error + pyfloat" where
  "float_div a b =
     (if b = Finite 0 then Inl (ZeroDivisionError ''float division by zero'')
      else Inr (float_quotient a b))"

text \<open>The conversion of an \<open>int\<close> operand of a float operation: rounded, and an
  exception when the result is out of range.\<close>

definition float_of_int :: "int \<Rightarrow> error + pyfloat" where
  "float_of_int n =
     (case fl (of_int n) of
        Finite r \<Rightarrow> Inr (Finite r)
      | _ \<Rightarrow> Inl (OverflowError ''int too large to convert to float''))"

section \<open>The emulation core\<close>

subsection \<open>Port variants\<close>

text \<open>The four mock classes, with the fields that the modelled operations read or
  write (time stamps are left out). Bytes are \<open>char\<close>s.\<close>

datatype port =
    SerialPortMock (sp_port_name: string) (sp_is_open: bool) (sp_buffer: string)
      (sp_bytes_sent: int)
  | USBDisplayMock (ud_is_connected: bool)
  | USBSerialDisplayMock (us_is_open: bool) (us_is_connected: bool) (us_buffer: string)
      (us_bytes_sent: int) (us_messages_count: int)
  | NetworkDisplayMock (nd_is_connected: bool)

text \<open>\<open>message.encode('utf-8')\<close> for code points below 256.\<close>

definition utf8_encode :: "string \<Rightarrow> string" where
  "utf8_encode s =
     concat (map (\<lambda>c. let n = of_char c :: nat
                        in if n < 128 then [c]
                           else [char_of (192 + n div 64), char_of (128 + n mod 64)]) s)"

subsection \<open>Communication records and events\<close>

datatype communication_direction = IN | OUT

datatype communication_status = SUCCESS | ERROR | TIMEOUT_STATUS | CORRUPTED

record communication =
  comm_port_name :: string
  comm_direction :: communication_direction
  comm_data :: string
  comm_raw_data :: string
  comm_size :: int
  comm_status :: communication_status
  comm_latency :: "pyfloat option"
  comm_error :: "string option"
  comm_sequence_number :: int
  comm_is_response :: bool
  comm_connection_type :: string

text \<open>What \<open>emit\<close> is called with: the event name and its payload (without time
  stamps and generated ids).\<close>

datatype event =
    PortCreated string string
  | PortOpened string string
  | PortOpenFailed string string
  | PortClosed string
  | MessageSent communication
  | MessageFailed communication error
  | DisplayUpdate string "string list" config
  | MessageReceived communication

subsection \<open>The emulator state\<close>

record statistics =
  total_messages :: int
  successful_messages :: int
  failed_messages :: int
  average_latency :: pyfloat
  active_connections_count :: int

text \<open>\<open>emitted\<close> is the sequence of events passed to \<open>emit\<close>. Handlers are callbacks
  of the caller; \<open>emit\<close> catches what they raise, so it never raises itself. The command
  queue and its worker thread are not part of the model.\<close>

record emulator =
  ports :: "string \<rightharpoonup> port"
  active_connections :: "string \<rightharpoonup> connection_type"
  display_content :: "string \<rightharpoonup> string list"
  stats :: statistics
  emitted :: "event list"

definition new_emulator :: emulator where
  "new_emulator =
     \<lparr>ports = Map.empty, active_connections = Map.empty, display_content = Map.empty,
      stats = \<lparr>total_messages = 0, successful_messages = 0, failed_messages = 0,
               average_latency = Finite 0, active_connections_count = 0\<rparr>,
      emitted = []\<rparr>"

definition emit :: "emulator \<Rightarrow> event \<Rightarrow> emulator" where
  "emit s e = s\<lparr>emitted := emitted s @ [e]\<rparr>"

subsection \<open>Fault injection\<close>

text \<open>\<open>draw\<close> is the value that \<open>random.random()\<close> returns if it is called.\<close>

definition should_simulate_failure :: "config \<Rightarrow> failure_type \<Rightarrow> real \<Rightarrow> bool" where
  "should_simulate_failure c ft draw =
     (if ft \<notin> set (simulated_failures c) then False
      else draw * 100 < error_rate c)"

subsection \<open>Creating, opening and closing ports\<close>

definition new_port :: "config \<Rightarrow> error + port" where
  "new_port c =
     (case connection_type c of
        SERIAL \<Rightarrow> Inr (SerialPortMock (port_name c) False [] 0)
      | USB \<Rightarrow> Inr (USBDisplayMock False)
      | USB_SERIAL \<Rightarrow> Inr (USBSerialDisplayMock False False [] 0 0)
      | NETWORK \<Rightarrow> Inr (NetworkDisplayMock False)
      | BLUETOOTH \<Rightarrow>
          Inl (Exception ''Unsupported connection type: ConnectionType.BLUETOOTH''))"

definition create_virtual_port :: "emulator \<Rightarrow> config \<Rightarrow> (error + bool) \<times> emulator" where
  "create_virtual_port s c =
     (if port_name c \<in> dom (ports s)
      then (Inl (Exception (''Port '' @ port_name c @ '' already exists'')), s)
      else
        (case new_port c of
           Inl e \<Rightarrow> (Inl e, s)
         | Inr p \<Rightarrow>
             (Inr True,
              emit (s\<lparr>ports := (ports s)(port_name c \<mapsto> p)\<rparr>)
                (PortCreated (port_name c) (connection_type_value (connection_type c))))))"

text \<open>The \<open>isinstance\<close> chain of \<open>open_port\<close>: it has a branch for \<open>SerialPortMock\<close>,
  \<open>USBDisplayMock\<close> and \<open>NetworkDisplayMock\<close>, and none for \<open>USBSerialDisplayMock\<close>.\<close>

definition open_connection :: "port \<Rightarrow> port" where
  "open_connection p =
     (case p of
        SerialPortMock n _ b k \<Rightarrow> SerialPortMock n True b k
      | USBDisplayMock _ \<Rightarrow> USBDisplayMock True
      | NetworkDisplayMock _ \<Rightarrow> NetworkDisplayMock True
      | USBSerialDisplayMock opn con b k m \<Rightarrow> USBSerialDisplayMock opn con b k m)"

text \<open>The body of the \<open>try\<close> of \<open>open_port\<close>. On a raise the state keeps what was
  done before it.\<close>

definition open_port_body ::
  "emulator \<Rightarrow> string \<Rightarrow> config \<Rightarrow> real \<Rightarrow> (error + bool) \<times> emulator" where
  "open_port_body s pn c draw =
     (case (if pn \<notin> dom (ports s) then create_virtual_port s c else (Inr True, s)) of
        (Inl e, s1) \<Rightarrow> (Inl e, s1)
      | (Inr _, s1) \<Rightarrow>
          (case ports s1 pn of
             None \<Rightarrow> (Inl (KeyError pn), s1)
           | Some p \<Rightarrow>
               if should_simulate_failure c DISCONNECT draw
               then (Inl (Exception (''Simulated connection failure on '' @ pn)), s1)
               else
                 (let s2 = s1\<lparr>ports := (ports s1)(pn \<mapsto> open_connection p),
                               active_connections :=
                                 (active_connections s1)(pn \<mapsto> connection_type c),
                               stats := (stats s1)\<lparr>active_connections_count :=
                                          active_connections_count (stats s1) + 1\<rparr>\<rparr>
                  in (Inr True,
                      emit s2 (PortOpened pn (connection_type_value (connection_type c)))))))"

text \<open>\<open>open_port\<close>: the handler emits \<open>port-open-failed\<close> and raises again.\<close>

definition open_port ::
  "emulator \<Rightarrow> string \<Rightarrow> config \<Rightarrow> real \<Rightarrow> (error + bool) \<times> emulator" where
  "open_port s pn c draw =
     (case open_port_body s pn c draw of
        (Inl e, s1) \<Rightarrow> (Inl e, emit s1 (PortOpenFailed pn (error_text e)))
      | (Inr b, s1) \<Rightarrow> (Inr b, s1))"

text \<open>The \<open>isinstance\<close> chain of \<open>close_port\<close>, again without a branch for
  \<open>USBSerialDisplayMock\<close>.\<close>

definition close_connection :: "port \<Rightarrow> port" where
  "close_connection p =
     (case p of
        SerialPortMock n _ _ k \<Rightarrow> SerialPortMock n False [] k
      | USBDisplayMock _ \<Rightarrow> USBDisplayMock False
      | NetworkDisplayMock _ \<Rightarrow> NetworkDisplayMock False
      | USBSerialDisplayMock opn con b k m \<Rightarrow> USBSerialDisplayMock opn con b k m)"

definition close_port_body :: "emulator \<Rightarrow> string \<Rightarrow> (error + unit) \<times> emulator" where
  "close_port_body s pn =
     (case ports s pn of
        None \<Rightarrow> (Inr (), s)
      | Some p \<Rightarrow>
          (let s1 = s\<lparr>ports := (ports s)(pn \<mapsto> close_connection p)\<rparr>;
               s2 = (if pn \<in> dom (active_connections s1)
                     then s1\<lparr>active_connections := (active_connections s1)(pn := None),
                             stats := (stats s1)\<lparr>active_connections_count :=
                                        active_connections_count (stats s1) - 1\<rparr>\<rparr>
                     else s1)
           in (Inr (), emit s2 (PortClosed pn))))"

text \<open>\<open>close_port\<close>: the handler logs the exception and returns.\<close>

definition close_port :: "emulator \<Rightarrow> string \<Rightarrow> (error + unit) \<times> emulator" where
  "close_port s pn =
     (case close_port_body s pn of
        (Inl e, s1) \<Rightarrow> (Inr (), s1)
      | (Inr u, s1) \<Rightarrow> (Inr u, s1))"

subsection \<open>Sending a message\<close>

text \<open>\<open>_send_serial_data\<close> followed by \<open>SerialPortMock.write\<close>. The transmission time
  \<open>len(data) / (config.baud_rate / 8)\<close> raises when the baud rate is 0.\<close>

definition send_serial_data :: "port \<Rightarrow> string \<Rightarrow> config \<Rightarrow> error + port" where
  "send_serial_data p dat c =
     (let dat1 = (if dat = ''clear'' then [CHR 0x0C] else dat)
      in if baud_rate c = 0 then Inl (ZeroDivisionError ''float division by zero'')
         else if \<not> sp_is_open p
              then Inl (Exception (''Port '' @ sp_port_name p @ '' not open''))
              else Inr (SerialPortMock (sp_port_name p) (sp_is_open p) (sp_buffer p)
                          (sp_bytes_sent p + int (length dat1))))"

text \<open>\<open>_send_usb_data\<close> followed by \<open>USBDisplayMock.write\<close>.\<close>

definition send_usb_data :: "port \<Rightarrow> string \<Rightarrow> config \<Rightarrow> error + port" where
  "send_usb_data p dat c =
     (let hid_data = (if py_startswith dat ''clear'' then [CHR 0x01, CHR 0x0C]
                      else [CHR 0x02] @ py_slice_to dat 62)
      in if \<not> ud_is_connected p then Inl (Exception ''USB device not connected'')
         else Inr p)"

text \<open>\<open>_send_usb_serial_data\<close>, \<open>write_data\<close> and \<open>USBSerialDisplayMock.write\<close>, which
  tests \<open>is_open\<close>.\<close>

definition send_usb_serial_data :: "port \<Rightarrow> string \<Rightarrow> config \<Rightarrow> error + port" where
  "send_usb_serial_data p dat c =
     (let serial_data = (if py_startswith dat ''clear'' then [CHR 0x0C]
                         else dat @ [CHR 0x0D, CHR 0x0A])
      in if \<not> us_is_open p then Inl (Exception ''USB-Serial port not open'')
         else Inr (USBSerialDisplayMock (us_is_open p) (us_is_connected p)
                     (us_buffer p @ serial_data)
                     (us_bytes_sent p + int (length serial_data))
                     (us_messages_count p + 1)))"

text \<open>\<open>_send_network_data\<close> followed by \<open>NetworkDisplayMock.send\<close>.\<close>

definition send_network_data :: "port \<Rightarrow> string \<Rightarrow> config \<Rightarrow> error + port" where
  "send_network_data p dat c =
     (if \<not> nd_is_connected p then Inl (Exception ''Network not connected'') else Inr p)"

text \<open>The messages of the not-open and not-connected errors of \<open>send_message\<close>.\<close>

definition not_open_error :: "string \<Rightarrow> error" where
  "not_open_error pn = Exception (''Port '' @ pn @ '' not open'')"

definition usb_not_connected_error :: "string \<Rightarrow> error" where
  "usb_not_connected_error pn = Exception (''USB device '' @ pn @ '' not connected'')"

definition usb_serial_not_connected_error :: "string \<Rightarrow> error" where
  "usb_serial_not_connected_error pn =
     Exception (''USB-Serial device '' @ pn @ '' not connected'')"

definition network_not_connected_error :: "string \<Rightarrow> error" where
  "network_not_connected_error pn = Exception (''Network '' @ pn @ '' not connected'')"

text \<open>The \<open>isinstance\<close> chain of \<open>send_message\<close>: the flag test of each variant, then
  its sender.\<close>

definition transmit :: "port \<Rightarrow> string \<Rightarrow> string \<Rightarrow> config \<Rightarrow> error + port" where
  "transmit p pn dat c =
     (case p of
        SerialPortMock _ opn _ _ \<Rightarrow>
          if \<not> opn then Inl (not_open_error pn) else send_serial_data p dat c
      | USBDisplayMock con \<Rightarrow>
          if \<not> con then Inl (usb_not_connected_error pn) else send_usb_data p dat c
      | USBSerialDisplayMock _ con _ _ _ \<Rightarrow>
          if \<not> con then Inl (usb_serial_not_connected_error pn)
          else send_usb_serial_data p dat c
      | NetworkDisplayMock con \<Rightarrow>
          if \<not> con then Inl (network_not_connected_error pn)
          else send_network_data p dat c)"

text \<open>\<open>_update_average_latency\<close>, on the statistics in which \<open>successful_messages\<close> has
  been incremented already: \<open>(current_avg * (successful_messages - 1) + latency) /
  successful_messages\<close> in float arithmetic, the two counts converted to floats. The
  division raises when the count is 0.\<close>

definition update_average_latency :: "statistics \<Rightarrow> pyfloat \<Rightarrow> error + statistics" where
  "update_average_latency st latency =
     (if successful_messages st = 1 then Inr (st\<lparr>average_latency := latency\<rparr>)
      else
        then_do (float_of_int (successful_messages st - 1)) (\<lambda>k.
        then_do (float_of_int (successful_messages st)) (\<lambda>n.
        then_do (float_div (float_add (float_mul (average_latency st) k) latency) n) (\<lambda>a.
          Inr (st\<lparr>average_latency := a\<rparr>)))))"

text \<open>\<open>_process_display_message\<close>: stores the lines, emits \<open>display-update\<close> and the
  acknowledgement.\<close>

definition process_display_message ::
  "emulator \<Rightarrow> string \<Rightarrow> string \<Rightarrow> config \<Rightarrow> emulator" where
  "process_display_message s pn message c =
     (let lines = display_message_lines message c;
          s1 = s\<lparr>display_content := (display_content s)(pn \<mapsto> lines)\<rparr>;
          s2 = emit s1 (DisplayUpdate pn lines c);
          ack = \<lparr>comm_port_name = pn, comm_direction = IN, comm_data = ''ACK'',
                 comm_raw_data = ''ACK'', comm_size = 3, comm_status = SUCCESS,
                 comm_latency = None, comm_error = None,
                 comm_sequence_number = total_messages (stats s),
                 comm_is_response = True, comm_connection_type = ''serial''\<rparr>
      in emit s2 (MessageReceived ack))"

text \<open>The body of the \<open>try\<close> of \<open>send_message\<close>. \<open>d1\<close> and \<open>d2\<close> are the random draws
  for the timeout and the corruption test, \<open>latency\<close> is the elapsed time that the call
  measures, in milliseconds.\<close>

definition send_message_body ::
  "emulator \<Rightarrow> string \<Rightarrow> string \<Rightarrow> config \<Rightarrow> real \<Rightarrow> real \<Rightarrow> pyfloat
     \<Rightarrow> (error + communication) \<times> emulator" where
  "send_message_body s pn message c d1 d2 latency =
     (case ports s pn of
        None \<Rightarrow> (Inl (Exception (''Port '' @ pn @ '' not found'')), s)
      | Some p \<Rightarrow>
          (let dat = utf8_encode message;
               comm = \<lparr>comm_port_name = pn, comm_direction = OUT, comm_data = message,
                       comm_raw_data = dat, comm_size = int (length dat),
                       comm_status = SUCCESS, comm_latency = None, comm_error = None,
                       comm_sequence_number = total_messages (stats s),
                       comm_is_response = False,
                       comm_connection_type =
                         connection_type_value
                           (case active_connections s pn of None \<Rightarrow> SERIAL | Some t \<Rightarrow> t)\<rparr>
           in if should_simulate_failure c TIMEOUT d1
              then (Inl (Exception ''Simulated timeout''), s)
              else if should_simulate_failure c CORRUPTION d2
              then (Inl (Exception ''Simulated data corruption''), s)
              else
                (case transmit p pn dat c of
                   Inl e \<Rightarrow> (Inl e, s)
                 | Inr p1 \<Rightarrow>
                     (let comm1 = comm\<lparr>comm_latency := Some latency\<rparr>;
                          st1 = (stats s)\<lparr>total_messages := total_messages (stats s) + 1,
                                          successful_messages :=
                                            successful_messages (stats s) + 1\<rparr>;
                          s1 = s\<lparr>ports := (ports s)(pn \<mapsto> p1), stats := st1\<rparr>
                      in case update_average_latency st1 latency of
                           Inl e \<Rightarrow> (Inl e, s1)
                         | Inr st2 \<Rightarrow>
                             (let s2 = process_display_message (s1\<lparr>stats := st2\<rparr>)
                                         pn message c
                              in (Inr comm1, emit s2 (MessageSent comm1)))))))"

text \<open>\<open>send_message\<close>: the handler counts the failure, emits \<open>message-failed\<close> and
  raises again.\<close>

definition send_message ::
  "emulator \<Rightarrow> string \<Rightarrow> string \<Rightarrow> config \<Rightarrow> real \<Rightarrow> real \<Rightarrow> pyfloat
     \<Rightarrow> (error + communication) \<times> emulator" where
  "send_message s pn message c d1 d2 latency =
     (case send_message_body s pn message c d1 d2 latency of
        (Inr comm, s1) \<Rightarrow> (Inr comm, s1)
      | (Inl e, s1) \<Rightarrow>
          (let st1 = (stats s1)\<lparr>total_messages := total_messages (stats s1) + 1,
                                 failed_messages := failed_messages (stats s1) + 1\<rparr>;
               error_comm =
                 \<lparr>comm_port_name = pn, comm_direction = OUT, comm_data = message,
                  comm_raw_data = utf8_encode message, comm_size = int (length message),
                  comm_status = ERROR, comm_latency = Some latency,
                  comm_error = Some (error_text e),
                  comm_sequence_number = total_messages st1 - 1,
                  comm_is_response = False, comm_connection_type = ''serial''\<rparr>
           in (Inl e, emit (s1\<lparr>stats := st1\<rparr>) (MessageFailed error_comm e))))"

text \<open>\<open>get_display_content\<close>.\<close>

definition get_display_content :: "emulator \<Rightarrow> string \<Rightarrow> string list" where
  "get_display_content s pn = (case display_content s pn of None \<Rightarrow> [] | Some ls \<Rightarrow> ls)"

section \<open>Dynamically typed values\<close>

text \<open>A value of type \<open>Any\<close>: what a scenario document or a literal of the source can
  hold. A \<open>dict\<close> keeps its items in insertion order.\<close>

datatype pyval =
    PyNone
  | PyBool bool
  | PyInt int
  | PyFloat real
  | PyStr string
  | PyList "pyval list"
  | PyDict "(string \<times> pyval) list"

fun py_type_name :: "pyval \<Rightarrow> string" where
  "py_type_name PyNone = ''NoneType''"
| "py_type_name (PyBool _) = ''bool''"
| "py_type_name (PyInt _) = ''int''"
| "py_type_name (PyFloat _) = ''float''"
| "py_type_name (PyStr _) = ''str''"
| "py_type_name (PyList _) = ''list''"
| "py_type_name (PyDict _) = ''dict''"

section \<open>Test scenarios and the test runner\<close>

datatype scenario_category =
  BASIC | FUNCTIONAL | PERFORMANCE | STRESS | ERROR_HANDLING | INTEGRATION | HARDWARE

datatype result_status = PENDING | RUNNING | PASSED | FAILED | SKIPPED

text \<open>\<open>TestStep\<close> and \<open>TestScenario\<close> with the types of their annotations.\<close>

record test_step =
  step_name :: string
  action :: string
  step_data :: "string option"
  expected_result :: pyval
  parameters :: "(string \<times> pyval) list"
  delay_after :: int

record test_scenario =
  scenario_id :: string
  scenario_name :: string
  description :: string
  category :: scenario_category
  tags :: "string list"
  steps :: "test_step list"
  expected_duration :: real
  priority :: string
  enabled :: bool

text \<open>The dictionary that \<open>_execute_step\<close> returns (without its duration).\<close>

record step_result =
  sr_step_name :: string
  sr_success :: bool
  sr_action :: string
  sr_error_message :: "string option"
  sr_expected_result :: pyval

text \<open>The fields of \<open>TestResult\<close> that the runner writes.\<close>

record test_result =
  tr_scenario_id :: string
  tr_scenario_name :: string
  tr_duration :: "real option"
  tr_status :: result_status
  tr_step_results :: "step_result list"
  tr_error_message :: "string option"

record test_runner =
  serial_emulator :: emulator
  results :: "test_result list"

text \<open>What the environment decides during one step: the two random draws and the
  elapsed time of a \<open>send_message\<close>.\<close>

record step_env =
  timeout_draw :: real
  corruption_draw :: real
  elapsed_ms :: pyfloat

text \<open>What the environment decides during one scenario: the draw of \<open>open_port\<close>, the
  environment of the step at each index, and the measured duration in seconds.\<close>

record run_env =
  setup_draw :: real
  step_envs :: "nat \<Rightarrow> step_env"
  run_seconds :: real

definition setup_display :: "emulator \<Rightarrow> config \<Rightarrow> real \<Rightarrow> (error + bool) \<times> emulator" where
  "setup_display em c draw = open_port em (port_name c) c draw"

text \<open>\<open>_cleanup_display\<close>: \<open>close_port\<close>, with a handler that logs a warning.\<close>

definition cleanup_display :: "emulator \<Rightarrow> config \<Rightarrow> emulator" where
  "cleanup_display em c = snd (close_port em (port_name c))"

definition execute_send_step ::
  "emulator \<Rightarrow> test_step \<Rightarrow> config \<Rightarrow> step_env \<Rightarrow> (error + unit) \<times> emulator" where
  "execute_send_step em st c env =
     (case step_data st of
        None \<Rightarrow> (Inl (ValueError ''Send step requires data''), em)
      | Some d \<Rightarrow>
          if d = [] then (Inl (ValueError ''Send step requires data''), em)
          else
            (case send_message em (port_name c) d c
                    (timeout_draw env) (corruption_draw env) (elapsed_ms env) of
               (Inl e, em1) \<Rightarrow> (Inl e, em1)
             | (Inr _, em1) \<Rightarrow> (Inr (), em1)))"

text \<open>\<open>_execute_wait_step\<close>: \<open>step.parameters.get("duration", 1000) / 1000.0\<close> raises
  for a value that is not a number, and for an \<open>int\<close> too large for a float. Time is not
  part of the model: the sleep itself changes nothing.\<close>

definition execute_wait_step :: "emulator \<Rightarrow> test_step \<Rightarrow> (error + unit) \<times> emulator" where
  "execute_wait_step em st =
     (case map_of (parameters st) ''duration'' of
        None \<Rightarrow> (Inr (), em)
      | Some (PyInt n) \<Rightarrow>
          (case float_of_int n of Inl e \<Rightarrow> (Inl e, em) | Inr _ \<Rightarrow> (Inr (), em))
      | Some (PyFloat _) \<Rightarrow> (Inr (), em)
      | Some (PyBool _) \<Rightarrow> (Inr (), em)
      | Some v \<Rightarrow>
          (Inl (TypeError (''unsupported operand type(s) for /: '' @ [CHR 0x27]
                  @ py_type_name v @ [CHR 0x27] @ '' and '' @ [CHR 0x27] @ ''float''
                  @ [CHR 0x27])), em))"

definition execute_clear_step ::
  "emulator \<Rightarrow> test_step \<Rightarrow> config \<Rightarrow> step_env \<Rightarrow> (error + unit) \<times> emulator" where
  "execute_clear_step em st c env =
     (case send_message em (port_name c) [] c
             (timeout_draw env) (corruption_draw env) (elapsed_ms env) of
        (Inl e, em1) \<Rightarrow> (Inl e, em1)
      | (Inr _, em1) \<Rightarrow> (Inr (), em1))"

text \<open>\<open>_execute_validate_step\<close> starts with \<open>self.serial_emulator.get_display_state\<close>;
  \<open>SerialEmulator\<close> defines no such attribute, so the look-up raises.\<close>

definition execute_validate_step ::
  "emulator \<Rightarrow> test_step \<Rightarrow> config \<Rightarrow> (error + unit) \<times> emulator" where
  "execute_validate_step em st c =
     (Inl (AttributeError ([CHR 0x27] @ ''SerialEmulator'' @ [CHR 0x27]
             @ '' object has no attribute '' @ [CHR 0x27] @ ''get_display_state''
             @ [CHR 0x27])), em)"

text \<open>\<open>_execute_step\<close>: every exception of the step becomes a failed outcome.\<close>

definition execute_step ::
  "emulator \<Rightarrow> test_step \<Rightarrow> config \<Rightarrow> step_env \<Rightarrow> step_result \<times> emulator" where
  "execute_step em st c env =
     (case (if action st = ''send'' then execute_send_step em st c env
            else if action st = ''wait'' then execute_wait_step em st
            else if action st = ''clear'' then execute_clear_step em st c env
            else if action st = ''validate'' then execute_validate_step em st c
            else (Inl (ValueError (''Unknown test action: '' @ action st)), em)) of
        (Inr _, em1) \<Rightarrow>
          (\<lparr>sr_step_name = step_name st, sr_success = True, sr_action = action st,
            sr_error_message = None, sr_expected_result = expected_result st\<rparr>, em1)
      | (Inl e, em1) \<Rightarrow>
          (\<lparr>sr_step_name = step_name st, sr_success = False, sr_action = action st,
            sr_error_message = Some (error_text e),
            sr_expected_result = expected_result st\<rparr>, em1))"

text \<open>\<open>step_result.success\<close> and \<open>step_result.error_message\<close> in \<open>run_scenario\<close>:
  the look-up of an attribute on the dictionary that \<open>_execute_step\<close> returned. A
  \<open>dict\<close> has its methods as attributes, not its keys, so the look-up of either name
  raises and gives no value.\<close>

definition dict_attribute :: "step_result \<Rightarrow> string \<Rightarrow> error + 'a" where
  "dict_attribute d name =
     Inl (AttributeError ([CHR 0x27] @ ''dict'' @ [CHR 0x27] @ '' object has no attribute ''
            @ [CHR 0x27] @ name @ [CHR 0x27]))"

text \<open>The \<open>for\<close> loop of \<open>run_scenario\<close>, from the step with index \<open>i\<close> on. The outcome
  of a step is recorded, then its \<open>success\<close> is read; a failed step sets the status and
  the message and ends the loop; after a successful one the loop sleeps for a positive
  \<open>delay_after\<close> (\<open>step.delay_after / 1000.0\<close> raises for an \<open>int\<close> too large for a float)
  and goes on. The first component of the result is the exception that left the loop,
  if any.\<close>

fun run_steps ::
  "emulator \<Rightarrow> config \<Rightarrow> (nat \<Rightarrow> step_env) \<Rightarrow> nat \<Rightarrow> test_step list \<Rightarrow> test_result
     \<Rightarrow> (error + unit) \<times> test_result \<times> emulator" where
  "run_steps em c envs i [] res = (Inr (), res, em)"
| "run_steps em c envs i (st # rest) res =
     (case execute_step em st c (envs i) of
        (sr, em1) \<Rightarrow>
          (let res1 = res\<lparr>tr_step_results := tr_step_results res @ [sr]\<rparr>
           in case dict_attribute sr ''success'' of
                Inl e \<Rightarrow> (Inl e, res1, em1)
              | Inr success \<Rightarrow>
                  if \<not> success
                  then (case dict_attribute sr ''error_message'' of
                          Inl e \<Rightarrow> (Inl e, res1\<lparr>tr_status := FAILED\<rparr>, em1)
                        | Inr message \<Rightarrow>
                            (Inr (),
                             res1\<lparr>tr_status := FAILED, tr_error_message := message\<rparr>,
                             em1))
                  else if 0 < delay_after st
                  then (case float_of_int (delay_after st) of
                          Inl e \<Rightarrow> (Inl e, res1, em1)
                        | Inr _ \<Rightarrow> run_steps em1 c envs (Suc i) rest res1)
                  else run_steps em1 c envs (Suc i) rest res1))"

text \<open>\<open>run_scenario\<close>: an exception of the set-up or of the loop sets the status
  \<open>failed\<close> and its text as the message; the \<open>finally\<close> part sets the duration and cleans
  up; the result is appended to the results of the runner.\<close>

definition run_scenario ::
  "test_runner \<Rightarrow> test_scenario \<Rightarrow> config \<Rightarrow> run_env \<Rightarrow> test_result \<times> test_runner" where
  "run_scenario r sc c env =
     (let result = \<lparr>tr_scenario_id = scenario_id sc, tr_scenario_name = scenario_name sc,
                    tr_duration = None, tr_status = RUNNING, tr_step_results = [],
                    tr_error_message = None\<rparr>;
          (res1, em1) =
            (case setup_display (serial_emulator r) c (setup_draw env) of
               (Inl e, em0) \<Rightarrow>
                 (result\<lparr>tr_status := FAILED, tr_error_message := Some (error_text e)\<rparr>,
                  em0)
             | (Inr _, em0) \<Rightarrow>
                 (case run_steps em0 c (step_envs env) 0 (steps sc) result of
                    (Inl e, res0, em2) \<Rightarrow>
                      (res0\<lparr>tr_status := FAILED, tr_error_message := Some (error_text e)\<rparr>,
                       em2)
                  | (Inr _, res0, em2) \<Rightarrow>
                      (if tr_status res0 = RUNNING then res0\<lparr>tr_status := PASSED\<rparr>
                       else res0, em2)));
          res2 = res1\<lparr>tr_duration := Some (run_seconds env)\<rparr>;
          em3 = cleanup_display em1 c
      in (res2, r\<lparr>serial_emulator := em3, results := results r @ [res2]\<rparr>))"

subsection \<open>The report\<close>

record summary =
  total_tests :: int
  passed_tests :: int
  failed_tests :: int
  success_rate :: real
  total_duration :: real

text \<open>The dictionary that \<open>generate_report\<close> returns (no output path given): either
  the single key \<open>error\<close>, or \<open>summary\<close> and \<open>results\<close>.\<close>

datatype report = ErrorReport string | Report summary "test_result list"

definition generate_report :: "test_runner \<Rightarrow> report" where
  "generate_report r =
     (if results r = [] then ErrorReport ''No test results available''
      else
        (let total = int (length (results r));
             passed = int (length (filter (\<lambda>x. tr_status x = PASSED) (results r)));
             failed = int (length (filter (\<lambda>x. tr_status x = FAILED) (results r)));
             duration = sum_list (map (\<lambda>x. case tr_duration x of None \<Rightarrow> 0 | Some d \<Rightarrow> d)
                                    (results r))
         in Report \<lparr>total_tests = total, passed_tests = passed, failed_tests = failed,
                    success_rate = (if total > 0
                                    then (of_int passed / of_int total) * 100 else 0),
                    total_duration = duration\<rparr>
              (results r)))"

section \<open>The logger set-up\<close>

datatype handler = StreamHandler | FileHandler string

record logger =
  lg_level :: int
  lg_handlers :: "handler list"

text \<open>The loggers of the \<open>logging\<close> module, by name. A logger instance is identified by
  its name: \<open>getLogger\<close> returns the same object for the same name.\<close>

type_synonym logging = "string \<rightharpoonup> logger"

text \<open>\<open>logging.getLogger(name)\<close>: a logger not seen before is created with level
  \<open>NOTSET\<close> and no handler (the root logger, of the empty name, with \<open>WARNING\<close>).\<close>

definition getLogger :: "logging \<Rightarrow> string \<Rightarrow> logger \<times> logging" where
  "getLogger reg name =
     (case reg name of
        Some l \<Rightarrow> (l, reg)
      | None \<Rightarrow>
          (let l = \<lparr>lg_level = (if name = [] then 30 else 0), lg_handlers = []\<rparr>
           in (l, reg(name \<mapsto> l))))"

text \<open>The integer level constants of the \<open>logging\<close> module. For every other name,
  \<open>logger.setLevel(getattr(logging, ...))\<close> raises.\<close>

definition logging_level :: "string \<Rightarrow> int option" where
  "logging_level n =
     (if n = ''CRITICAL'' \<or> n = ''FATAL'' then Some 50
      else if n = ''ERROR'' then Some 40
      else if n = ''WARNING'' \<or> n = ''WARN'' then Some 30
      else if n = ''INFO'' then Some 20
      else if n = ''DEBUG'' then Some 10
      else if n = ''NOTSET'' then Some 0
      else None)"

text \<open>\<open>setup_logger\<close>. The result is the name of the returned logger and the loggers
  after the call. \<open>file_ok\<close> tells whether the file system lets the log file be created.\<close>

definition setup_logger ::
  "logging \<Rightarrow> string \<Rightarrow> string \<Rightarrow> string option \<Rightarrow> bool \<Rightarrow> (error + string) \<times> logging" where
  "setup_logger reg name level log_file file_ok =
     (case getLogger reg name of
        (l, reg1) \<Rightarrow>
          (case logging_level (py_upper level) of
             None \<Rightarrow>
               (Inl (AttributeError (''module '' @ [CHR 0x27] @ ''logging'' @ [CHR 0x27]
                       @ '' has no attribute '' @ [CHR 0x27] @ py_upper level
                       @ [CHR 0x27])), reg1)
           | Some lv \<Rightarrow>
               (let l1 = l\<lparr>lg_level := lv\<rparr>
                in if lg_handlers l1 \<noteq> [] then (Inr name, reg1(name \<mapsto> l1))
                   else
                     (let l2 = l1\<lparr>lg_handlers := lg_handlers l1 @ [StreamHandler]\<rparr>
                      in case log_file of
                           None \<Rightarrow> (Inr name, reg1(name \<mapsto> l2))
                         | Some path \<Rightarrow>
                             if \<not> file_ok
                             then (Inl (OSError path), reg1(name \<mapsto> l2))
                             else (Inr name,
                                   reg1(name \<mapsto> l2\<lparr>lg_handlers :=
                                          lg_handlers l2 @ [FileHandler path]\<rparr>))))))"

section \<open>The scenario loader\<close>

fun category_value :: "scenario_category \<Rightarrow> string" where
  "category_value BASIC = ''basic''"
| "category_value FUNCTIONAL = ''functional''"
| "category_value PERFORMANCE = ''performance''"
| "category_value STRESS = ''stress''"
| "category_value ERROR_HANDLING = ''error_handling''"
| "category_value INTEGRATION = ''integration''"
| "category_value HARDWARE = ''hardware''"

text \<open>\<open>ScenarioCategory(category_str)\<close> with the fall-back to \<open>BASIC\<close> of
  \<open>_parse_scenario_data\<close>.\<close>

definition parse_category :: "pyval \<Rightarrow> scenario_category" where
  "parse_category v =
     (case v of
        PyStr s \<Rightarrow>
          (case filter (\<lambda>k. category_value k = s)
                  [BASIC, FUNCTIONAL, PERFORMANCE, STRESS, ERROR_HANDLING, INTEGRATION,
                   HARDWARE] of
             [] \<Rightarrow> BASIC
           | k # _ \<Rightarrow> k)
      | _ \<Rightarrow> BASIC)"

definition step_to_dict :: "test_step \<Rightarrow> pyval" where
  "step_to_dict st =
     PyDict [(''name'', PyStr (step_name st)),
             (''action'', PyStr (action st)),
             (''data'', (case step_data st of None \<Rightarrow> PyNone | Some d \<Rightarrow> PyStr d)),
             (''expected_result'', expected_result st),
             (''parameters'', PyDict (parameters st)),
             (''delay_after'', PyInt (delay_after st))]"

text \<open>\<open>_scenario_to_dict\<close>.\<close>

definition scenario_to_dict :: "test_scenario \<Rightarrow> pyval" where
  "scenario_to_dict sc =
     PyDict [(''id'', PyStr (scenario_id sc)),
             (''name'', PyStr (scenario_name sc)),
             (''description'', PyStr (description sc)),
             (''category'', PyStr (category_value (category sc))),
             (''tags'', PyList (map PyStr (tags sc))),
             (''steps'', PyList (map step_to_dict (steps sc))),
             (''expected_duration'', PyFloat (expected_duration sc)),
             (''priority'', PyStr (priority sc)),
             (''enabled'', PyBool (enabled sc))]"

text \<open>\<open>d.get(k, default)\<close>, \<open>d[k]\<close> and iteration, on a value of any type.\<close>

definition py_get :: "pyval \<Rightarrow> string \<Rightarrow> pyval \<Rightarrow> error + pyval" where
  "py_get v k dflt =
     (case v of
        PyDict kvs \<Rightarrow> Inr (case map_of kvs k of None \<Rightarrow> dflt | Some x \<Rightarrow> x)
      | _ \<Rightarrow> Inl (AttributeError ([CHR 0x27] @ py_type_name v @ [CHR 0x27]
                    @ '' object has no attribute '' @ [CHR 0x27] @ ''get'' @ [CHR 0x27])))"

definition py_getitem :: "pyval \<Rightarrow> string \<Rightarrow> error + pyval" where
  "py_getitem v k =
     (case v of
        PyDict kvs \<Rightarrow> (case map_of kvs k of None \<Rightarrow> Inl (KeyError k) | Some x \<Rightarrow> Inr x)
      | PyStr _ \<Rightarrow> Inl (TypeError ''string indices must be integers'')
      | PyList _ \<Rightarrow> Inl (TypeError ''list indices must be integers or slices, not str'')
      | _ \<Rightarrow> Inl (TypeError ([CHR 0x27] @ py_type_name v @ [CHR 0x27]
                    @ '' object is not subscriptable'')))"

definition py_iter :: "pyval \<Rightarrow> error + pyval list" where
  "py_iter v =
     (case v of
        PyList xs \<Rightarrow> Inr xs
      | PyDict kvs \<Rightarrow> Inr (map (\<lambda>kv. PyStr (fst kv)) kvs)
      | PyStr s \<Rightarrow> Inr (map (\<lambda>ch. PyStr [ch]) s)
      | _ \<Rightarrow> Inl (TypeError ([CHR 0x27] @ py_type_name v @ [CHR 0x27]
                    @ '' object is not iterable'')))"

text \<open>A scenario as the loader builds it. The dataclasses check no types, so a field
  read from the document holds whatever value the document has there.\<close>

record loaded_step =
  ls_name :: pyval
  ls_action :: pyval
  ls_data :: pyval
  ls_expected_result :: pyval
  ls_parameters :: pyval
  ls_delay_after :: pyval

record loaded_scenario =
  l_id :: pyval
  l_name :: pyval
  l_description :: pyval
  l_category :: scenario_category
  l_tags :: pyval
  l_steps :: "loaded_step list"
  l_expected_duration :: pyval
  l_priority :: pyval
  l_enabled :: pyval

text \<open>The construction of one \<open>TestStep\<close> in \<open>_parse_scenario_data\<close>.\<close>

definition parse_step_data :: "pyval \<Rightarrow> error + loaded_step" where
  "parse_step_data d =
     then_do (py_getitem d ''name'') (\<lambda>nm.
     then_do (py_getitem d ''action'') (\<lambda>ac.
     then_do (py_get d ''data'' PyNone) (\<lambda>da.
     then_do (py_get d ''expected_result'' PyNone) (\<lambda>ex.
     then_do (py_get d ''parameters'' (PyDict [])) (\<lambda>pa.
     then_do (py_get d ''delay_after'' (PyInt 0)) (\<lambda>de.
       Inr \<lparr>ls_name = nm, ls_action = ac, ls_data = da, ls_expected_result = ex,
            ls_parameters = pa, ls_delay_after = de\<rparr>))))))"

text \<open>A loop that stops at the first exception.\<close>

fun map_result :: "('a \<Rightarrow> error + 'b) \<Rightarrow> 'a list \<Rightarrow> error + 'b list" where
  "map_result f [] = Inr []"
| "map_result f (x # xs) =
     (case f x of
        Inl e \<Rightarrow> Inl e
      | Inr y \<Rightarrow> (case map_result f xs of Inl e \<Rightarrow> Inl e | Inr ys \<Rightarrow> Inr (y # ys)))"

text \<open>\<open>_parse_scenario_data\<close>.\<close>

definition parse_scenario_data :: "pyval \<Rightarrow> error + loaded_scenario" where
  "parse_scenario_data d =
     then_do (py_get d ''steps'' (PyList [])) (\<lambda>sv.
     then_do (py_iter sv) (\<lambda>items.
     then_do (map_result parse_step_data items) (\<lambda>sts.
     then_do (py_get d ''category'' (PyStr ''basic'')) (\<lambda>cv.
     then_do (py_getitem d ''id'') (\<lambda>i.
     then_do (py_getitem d ''name'') (\<lambda>nm.
     then_do (py_get d ''description'' (PyStr [])) (\<lambda>ds.
     then_do (py_get d ''tags'' (PyList [])) (\<lambda>tg.
     then_do (py_get d ''expected_duration'' (PyFloat 10)) (\<lambda>ed.
     then_do (py_get d ''priority'' (PyStr ''medium'')) (\<lambda>pr.
     then_do (py_get d ''enabled'' (PyBool True)) (\<lambda>en.
       Inr \<lparr>l_id = i, l_name = nm, l_description = ds, l_category = parse_category cv,
            l_tags = tg, l_steps = sts, l_expected_duration = ed, l_priority = pr,
            l_enabled = en\<rparr>)))))))))))"

subsection \<open>The YAML library and the files\<close>

text \<open>A file is empty or holds one document. The library is PyYAML: \<open>yaml.dump(data,
  stream, **kwds)\<close> hands its keywords to \<open>dump_all\<close>, whose keyword parameters are the
  ones listed; any other keyword raises \<open>TypeError\<close> before anything is written.
  \<open>yaml.safe_load\<close> of an empty stream is \<open>None\<close>.\<close>

datatype file_content = EmptyFile | Document pyval

type_synonym files = "string \<rightharpoonup> file_content"

definition yaml_dump_keywords :: "string list" where
  "yaml_dump_keywords =
     [''default_style'', ''default_flow_style'', ''canonical'', ''indent'', ''width'',
      ''allow_unicode'', ''line_break'', ''encoding'', ''explicit_start'',
      ''explicit_end'', ''version'', ''tags'', ''sort_keys'']"

definition yaml_dump :: "pyval \<Rightarrow> string list \<Rightarrow> error + file_content" where
  "yaml_dump d kwds =
     (case filter (\<lambda>k. k \<notin> set yaml_dump_keywords) kwds of
        [] \<Rightarrow> Inr (Document d)
      | k # _ \<Rightarrow>
          Inl (TypeError (''dump_all() got an unexpected keyword argument ''
                 @ [CHR 0x27] @ k @ [CHR 0x27])))"

definition yaml_safe_load :: "file_content \<Rightarrow> pyval" where
  "yaml_safe_load f = (case f of EmptyFile \<Rightarrow> PyNone | Document d \<Rightarrow> d)"

text \<open>\<open>save_to_yaml\<close>: \<open>open(file_path, 'w')\<close> creates or empties the file, then
  \<open>yaml.dump(data, f, default_flow_style=False, ensure_ascii=False, indent=2)\<close> runs;
  the handler logs an exception and returns.\<close>

definition save_to_yaml :: "files \<Rightarrow> test_scenario list \<Rightarrow> string \<Rightarrow> files" where
  "save_to_yaml fs scs path =
     (let d = PyDict [(''scenarios'', PyList (map scenario_to_dict scs))];
          fs1 = fs(path \<mapsto> EmptyFile)
      in case yaml_dump d [''default_flow_style'', ''ensure_ascii'', ''indent''] of
           Inl e \<Rightarrow> fs1
         | Inr content \<Rightarrow> fs1(path \<mapsto> content))"

text \<open>Whether a value can be a dictionary key (\<open>self.scenarios[scenario.id] = ...\<close>).\<close>

definition py_hashable :: "pyval \<Rightarrow> bool" where
  "py_hashable v = (case v of PyList _ \<Rightarrow> False | PyDict _ \<Rightarrow> False | _ \<Rightarrow> True)"

definition parse_and_index :: "pyval \<Rightarrow> error + loaded_scenario" where
  "parse_and_index d =
     (case parse_scenario_data d of
        Inl e \<Rightarrow> Inl e
      | Inr sc \<Rightarrow>
          if py_hashable (l_id sc) then Inr sc
          else Inl (TypeError (''unhashable type: '' @ [CHR 0x27] @ py_type_name (l_id sc)
                      @ [CHR 0x27])))"

text \<open>\<open>load_from_yaml\<close>, the returned list: any exception gives the empty list.\<close>

definition load_from_yaml :: "files \<Rightarrow> string \<Rightarrow> loaded_scenario list" where
  "load_from_yaml fs path =
     (case fs path of
        None \<Rightarrow> []
      | Some content \<Rightarrow>
          (case py_get (yaml_safe_load content) ''scenarios'' (PyList []) of
             Inl e \<Rightarrow> []
           | Inr v \<Rightarrow>
               (case py_iter v of
                  Inl e \<Rightarrow> []
                | Inr items \<Rightarrow>
                    (case map_result parse_and_index items of
                       Inl e \<Rightarrow> []
                     | Inr scs \<Rightarrow> scs))))"

subsection \<open>The built-in scenarios\<close>

text \<open>\<open>TestStep(name, action, ...)\<close> with the defaults of the dataclass for the fields
  that a literal leaves out.\<close>

definition TestStep ::
  "string \<Rightarrow> string \<Rightarrow> string option \<Rightarrow> pyval \<Rightarrow> (string \<times> pyval) list \<Rightarrow> int \<Rightarrow> test_step"
  where
  "TestStep nm ac da ex pa de =
     \<lparr>step_name = nm, action = ac, step_data = da, expected_result = ex,
      parameters = pa, delay_after = de\<rparr>"

definition clear_display_step :: test_step where
  "clear_display_step =
     TestStep (''Effacer l'' @ [CHR 0x27] @ ''afficheur'') ''clear'' None
       (PyDict [(''is_empty'', PyBool True)]) [] 0"

definition basic_display_test :: test_scenario where
  "basic_display_test =
     \<lparr>scenario_id = ''basic_display_test'',
      scenario_name = ''Test d'' @ [CHR 0x27] @ ''Affichage de Base'',
      description = ''Test simple d'' @ [CHR 0x27] @ ''affichage de texte'',
      category = BASIC,
      tags = [''basic'', ''display''],
      steps =
        [clear_display_step,
         TestStep ''Afficher message simple'' ''send'' (Some ''Hello World'')
           (PyDict [(''content_match'', PyStr ''Hello World'')]) [] 0,
         TestStep ''Attendre 2 secondes'' ''wait'' None PyNone
           [(''duration'', PyInt 2000)] 2000],
      expected_duration = 5,
      priority = ''high'',
      enabled = True\<rparr>"

definition multiline_display_test :: test_scenario where
  "multiline_display_test =
     \<lparr>scenario_id = ''multiline_display_test'',
      scenario_name = ''Test d'' @ [CHR 0x27] @ ''Affichage Multi-lignes'',
      description = ''Test d'' @ [CHR 0x27] @ ''affichage sur plusieurs lignes'',
      category = FUNCTIONAL,
      tags = [''multiline'', ''display''],
      steps =
        [clear_display_step,
         TestStep ''Afficher ligne 1'' ''send'' (Some ''Ligne 1'')
           (PyDict [(''content_match'', PyList [PyStr ''Ligne 1''])]) [] 0,
         TestStep ''Afficher ligne 2'' ''send'' (Some ''Ligne 2'')
           (PyDict [(''content_match'', PyList [PyStr ''Ligne 1'', PyStr ''Ligne 2''])])
           [] 0],
      expected_duration = 3,
      priority = ''medium'',
      enabled = True\<rparr>"

definition performance_test :: test_scenario where
  "performance_test =
     \<lparr>scenario_id = ''performance_test'',
      scenario_name = ''Test de Performance'',
      description = ''Test de performance et latence'',
      category = PERFORMANCE,
      tags = [''performance'', ''latency''],
      steps =
        [TestStep ''Envoi rapide de messages'' ''send'' (Some ''Performance Test'')
           (PyDict [(''response_time'', PyInt 50)])
           [(''repeat'', PyInt 10), (''interval'', PyInt 100)] 0],
      expected_duration = 5,
      priority = ''medium'',
      enabled = True\<rparr>"

definition usb_display_test :: test_scenario where
  "usb_display_test =
     \<lparr>scenario_id = ''usb_display_test'',
      scenario_name = ''Test d'' @ [CHR 0x27] @ ''Afficheur USB'',
      description = ''Test sp'' @ [CHR 0xE9] @ ''cifique pour afficheur USB'',
      category = HARDWARE,
      tags = [''usb'', ''hardware''],
      steps =
        [TestStep (''V'' @ [CHR 0xE9] @ ''rifier connexion USB'') ''validate'' None
           (PyDict [(''status'', PyStr ''active'')]) [] 0,
         TestStep ''Test message USB'' ''send'' (Some ''USB Display OK'')
           (PyDict [(''content_match'', PyStr ''USB Display OK'')]) [] 0],
      expected_duration = 3,
      priority = ''high'',
      enabled = True\<rparr>"

definition create_default_scenarios :: "test_scenario list" where
  "create_default_scenarios =
     [basic_display_test, multiline_display_test, performance_test, usb_display_test]"

section \<open>Callers and notions used in the statements\<close>

text \<open>\<open>VirtualDisplayConfig()\<close>: the defaults of the dataclass.\<close>

definition default_config :: config where
  "default_config =
     \<lparr>port_name = ''COM1'', connection_type = SERIAL, baud_rate = 9600,
      display_lines = 2, line_length = 20, artificial_latency = 0, error_rate = 0,
      simulated_failures = []\<rparr>"

text \<open>The flag that \<open>send_message\<close> tests before it transmits on a port.\<close>

definition send_flag :: "port \<Rightarrow> bool" where
  "send_flag p =
     (case p of
        SerialPortMock _ opn _ _ \<Rightarrow> opn
      | USBDisplayMock con \<Rightarrow> con
      | USBSerialDisplayMock _ con _ _ _ \<Rightarrow> con
      | NetworkDisplayMock con \<Rightarrow> con)"



text \<open>A finite double: a real that the rounding leaves as it is.\<close>

definition is_double :: "real \<Rightarrow> bool" where
  "is_double x = (fl x = Finite x)"


text \<open>The emulator after \<open>open_port("COM1", VirtualDisplayConfig())\<close> on a new one, with
  no fault injected.\<close>

definition opened_default :: emulator where
  "opened_default = snd (open_port new_emulator ''COM1'' default_config 0)"

text \<open>An environment without faults, a new runner, and a scenario of three steps whose
  second step is a send without data.\<close>

definition quiet_env :: run_env where
  "quiet_env =
     \<lparr>setup_draw = 0,
      step_envs = (\<lambda>i. \<lparr>timeout_draw = 0, corruption_draw = 0,
                        elapsed_ms = Finite 1\<rparr>),
      run_seconds = 1\<rparr>"

definition new_runner :: test_runner where
  "new_runner = \<lparr>serial_emulator = new_emulator, results = []\<rparr>"

definition send_without_data :: test_step where
  "send_without_data = TestStep ''Envoyer'' ''send'' None PyNone [] 0"

definition second_step_fails :: test_scenario where
  "second_step_fails =
     \<lparr>scenario_id = ''second_step_fails'', scenario_name = ''Second step fails'',
      description = [], category = BASIC, tags = [],
      steps = [clear_display_step, send_without_data,
               TestStep ''Attendre'' ''wait'' None PyNone [] 0],
      expected_duration = 10, priority = ''medium'', enabled = True\<rparr>"

text \<open>A test result with a given status, for examples.\<close>

definition result_with :: "result_status \<Rightarrow> test_result" where
  "result_with st =
     \<lparr>tr_scenario_id = ''s'', tr_scenario_name = ''S'', tr_duration = Some 1,
      tr_status = st, tr_step_results = [], tr_error_message = None\<rparr>"

section \<open>Properties of the display-content processing\<close>

lemma pad_lines_eq: "pad_lines ls n = ls @ replicate (nat (n - int (length ls))) []"
proof (induction ls n rule: pad_lines.induct)
  case (1 ls n)
  show ?case
  proof (cases "int (length ls) < n")
    case True
    then have "nat (n - int (length ls)) = Suc (nat (n - int (length (ls @ [[]]))))" by simp
    with 1 True show ?thesis
      by (subst pad_lines.simps) simp
  next
    case False
    then show ?thesis by (subst pad_lines.simps) simp
  qed
qed

lemma py_split_nonempty: "py_split sep s \<noteq> []"
  by (induction s) (auto split: list.splits)

lemma py_slice_to_nonneg: "0 \<le> n \<Longrightarrow> py_slice_to xs n = take (nat n) xs"
  by (simp add: py_slice_to_def)

lemma truncate_lines_nonneg: "0 \<le> w \<Longrightarrow> truncate_lines ls w = map (take (nat w)) ls"
  by (auto simp: truncate_lines_def py_slice_to_def)

lemma limit_then_pad:
  assumes "0 \<le> n"
  shows "pad_lines (if int (length xs) > n then py_slice_to xs n else xs) n
         = take (nat n) (xs @ replicate (nat n) [])"
proof (cases "int (length xs) > n")
  case True
  with assms show ?thesis by (simp add: pad_lines_eq py_slice_to_def min_def)
next
  case False
  with assms have "nat n - length xs = nat (n - int (length xs))" by simp
  with False assms show ?thesis by (simp add: pad_lines_eq)
qed

lemma display_message_lines_closed_form:
  assumes "0 \<le> display_lines c" "0 \<le> line_length c"
    and "\<not> (py_strip m = [] \<or> py_startswith (py_lower m) ''clear'')"
  shows "display_message_lines m c =
           map (take (nat (line_length c)))
             (take (nat (display_lines c))
                (py_split CHR 0x0A m @ replicate (nat (display_lines c)) []))"
  using assms
  by (simp add: display_message_lines_def Let_def limit_then_pad truncate_lines_nonneg)

lemma display_message_lines_length:
  assumes "0 \<le> display_lines c"
  shows "int (length (display_message_lines m c)) = display_lines c"
proof (cases "py_strip m = [] \<or> py_startswith (py_lower m) ''clear''")
  case True
  with assms show ?thesis by (simp add: display_message_lines_def py_repeat_def)
next
  case False
  with assms show ?thesis
    by (simp add: display_message_lines_def Let_def limit_then_pad truncate_lines_def)
qed

lemma display_message_lines_width:
  assumes "0 \<le> line_length c" "l \<in> set (display_message_lines m c)"
  shows "int (length l) \<le> line_length c"
proof (cases "py_strip m = [] \<or> py_startswith (py_lower m) ''clear''")
  case True
  with assms show ?thesis by (auto simp: display_message_lines_def py_repeat_def)
next
  case False
  with assms show ?thesis
    by (auto simp: display_message_lines_def Let_def truncate_lines_nonneg)
qed

lemma display_message_lines_clear:
  assumes "m = [] \<or> py_startswith (py_lower m) ''clear''"
  shows "display_message_lines m c = replicate (nat (display_lines c)) []"
  using assms by (auto simp: display_message_lines_def py_repeat_def py_strip_def)

lemma send_message_stores:
  assumes "send_message s pn m c d1 d2 lat = (Inr comm, s1)"
  shows "display_content s1 pn = Some (display_message_lines m c)"
  using assms
  by (auto simp: send_message_def send_message_body_def process_display_message_def
        emit_def Let_def split: option.splits sum.splits if_splits prod.splits)

section \<open>Evaluation on concrete inputs\<close>

text \<open>The number of binary digits of a numeral, digit by digit.\<close>

lemma bitlen_one: "bitlen 1 = 1"
  by (simp add: bitlen_alt_def)

lemma bitlen_One: "bitlen (numeral Num.One) = 1"
  by (simp add: bitlen_one)

lemma bitlen_Bit0: "bitlen (numeral (Num.Bit0 n)) = bitlen (numeral n) + 1"
  by (subst compute_bitlen) simp

lemma bitlen_Bit1: "bitlen (numeral (Num.Bit1 n)) = bitlen (numeral n) + 1"
  by (subst compute_bitlen) simp

lemmas float_eval =
  fl_def round_double_def round_half_even_def double_exponent_def
  bitlen_one bitlen_One bitlen_Bit0 bitlen_Bit1
  float_of_int_def float_div_def then_do_def is_double_def

lemmas emulator_defs =
  send_message_def send_message_body_def open_port_def open_port_body_def
  close_port_def close_port_body_def close_connection_def
  create_virtual_port_def new_port_def new_emulator_def default_config_def emit_def
  should_simulate_failure_def open_connection_def transmit_def send_serial_data_def
  send_usb_data_def send_usb_serial_data_def send_network_data_def
  not_open_error_def usb_not_connected_error_def usb_serial_not_connected_error_def
  network_not_connected_error_def
  update_average_latency_def process_display_message_def utf8_encode_def Let_def
  display_message_lines_def py_strip_def py_isspace_def py_startswith_def py_lower_def
  py_lower_char_def truncate_lines_def py_slice_to_def py_repeat_def pad_lines.simps
  opened_default_def char_of_def bit_Suc_0_iff float_eval

lemma send_message_result:
  "\<not> isl (fst (send_message s pn m c d1 d2 lat)) \<Longrightarrow>
     \<exists>comm. send_message s pn m c d1 d2 lat = (Inr comm, snd (send_message s pn m c d1 d2 lat))"
  by (cases "send_message s pn m c d1 d2 lat"; cases "fst (send_message s pn m c d1 d2 lat)")
     auto

section \<open>The stored display content\<close>

text \<open>
  Claim C1, as amended. For every port name, message and config whose \<open>display_lines\<close>
  and \<open>line_length\<close> are not negative: after a successful \<open>send_message\<close> the content
  stored for the port has exactly \<open>display_lines\<close> entries, each of length at most
  \<open>line_length\<close>. Unless the message is a clear command, the content is the message split
  on newlines, cut or padded with empty strings to \<open>display_lines\<close> entries, each entry
  cut to \<open>line_length\<close> characters.
\<close>

theorem stored_content_dimensions:
  assumes "0 \<le> display_lines c" and "0 \<le> line_length c"
    and "send_message s pn m c d1 d2 lat = (Inr comm, s1)"
  shows "\<exists>ls. display_content s1 pn = Some ls
           \<and> int (length ls) = display_lines c
           \<and> (\<forall>l \<in> set ls. int (length l) \<le> line_length c)
           \<and> (\<not> (py_strip m = [] \<or> py_startswith (py_lower m) ''clear'') \<longrightarrow>
                ls = map (take (nat (line_length c)))
                       (take (nat (display_lines c))
                          (py_split CHR 0x0A m @ replicate (nat (display_lines c)) [])))"
  using assms send_message_stores [OF assms(3)]
  by (auto simp: display_message_lines_length display_message_lines_closed_form
        dest: display_message_lines_width)

text \<open>The example of the specification: 2 lines of 20 characters.\<close>

theorem stored_content_dimensions_witness:
  "\<exists>ls. display_content
          (snd (send_message opened_default ''COM1''
                  (''A very very very long first line'' @ [CHR 0x0A] @ ''Second'')
                  default_config 0 0 (Finite 5))) ''COM1'' = Some ls
        \<and> int (length ls) = 2
        \<and> (\<forall>l \<in> set ls. int (length l) \<le> 20)
        \<and> ls = [''A very very very lon'', ''Second'']"
proof -
  let ?m = "''A very very very long first line'' @ [CHR 0x0A] @ ''Second''"
  let ?r = "send_message opened_default ''COM1'' ?m default_config 0 0 (Finite 5)"
  have "\<not> isl (fst ?r)" by (simp add: emulator_defs)
  then obtain comm where r: "?r = (Inr comm, snd ?r)"
    using send_message_result by blast
  have d: "0 \<le> display_lines default_config" "0 \<le> line_length default_config"
    by (simp_all add: default_config_def)
  have n: "\<not> (py_strip ?m = [] \<or> py_startswith (py_lower ?m) ''clear'')"
    by (simp add: emulator_defs)
  from stored_content_dimensions [OF d r] n show ?thesis
    by (simp add: default_config_def)
qed

text \<open>With \<open>line_length = -1\<close> the slice \<open>line[:-1]\<close> drops the last character only:
  the send of \<open>"abc"\<close> succeeds and stores \<open>"ab"\<close>, which is longer than \<open>line_length\<close>.\<close>

theorem negative_line_length_counterexample:
  "\<not> isl (fst (send_message (snd (open_port new_emulator ''COM1''
                  (default_config\<lparr>line_length := -1\<rparr>) 0)) ''COM1'' ''abc''
                  (default_config\<lparr>line_length := -1\<rparr>) 0 0 (Finite 5)))
   \<and> display_content (snd (send_message (snd (open_port new_emulator ''COM1''
                  (default_config\<lparr>line_length := -1\<rparr>) 0)) ''COM1'' ''abc''
                  (default_config\<lparr>line_length := -1\<rparr>) 0 0 (Finite 5))) ''COM1''
       = Some [''ab'', []]
   \<and> \<not> int (length ''ab'') \<le> line_length (default_config\<lparr>line_length := -1\<rparr>)"
  by (simp add: emulator_defs)

text \<open>
  Claim C2. For every prior state and every config, display-content processing of the
  empty string, or of a string that starts with \<open>clear\<close> in any mix of cases, stores
  \<open>display_lines\<close> empty strings for the port; so does a \<open>send_message\<close> of such a
  message that succeeds.
\<close>

theorem clear_yields_blank_lines:
  assumes "m = [] \<or> py_startswith (py_lower m) ''clear''"
  shows "display_content (process_display_message s pn m c) pn
           = Some (replicate (nat (display_lines c)) [])
         \<and> (\<forall>comm s1. send_message s pn m c d1 d2 lat = (Inr comm, s1) \<longrightarrow>
               display_content s1 pn = Some (replicate (nat (display_lines c)) []))"
  using assms send_message_stores [of s pn m c d1 d2 lat]
  by (auto simp: process_display_message_def emit_def Let_def display_message_lines_clear)

theorem clear_yields_blank_lines_witness:
  "display_content opened_default ''COM1'' = None
   \<and> display_content
       (snd (send_message opened_default ''COM1'' ''Hello'' default_config 0 0 (Finite 5))) ''COM1''
       = Some [''Hello'', []]
   \<and> display_content
       (snd (send_message
               (snd (send_message opened_default ''COM1'' ''Hello'' default_config 0 0 (Finite 5)))
               ''COM1'' ''CLEAR now'' default_config 0 0 (Finite 5))) ''COM1''
       = Some [[], []]"
proof -
  let ?s = "snd (send_message opened_default ''COM1'' ''Hello'' default_config 0 0 (Finite 5))"
  let ?r = "send_message ?s ''COM1'' ''CLEAR now'' default_config 0 0 (Finite 5)"
  have p: "''CLEAR now'' = [] \<or> py_startswith (py_lower ''CLEAR now'') ''clear''"
    by (simp add: emulator_defs)
  have "\<not> isl (fst ?r)" by (simp add: emulator_defs)
  then obtain comm where r: "?r = (Inr comm, snd ?r)"
    using send_message_result by blast
  have a: "display_content opened_default ''COM1'' = None"
    by (simp add: emulator_defs)
  have b: "display_content ?s ''COM1'' = Some [''Hello'', []]"
    by (simp add: emulator_defs)
  from clear_yields_blank_lines [OF p, of ?s "''COM1''" default_config 0 0 "Finite 5"] r
  have "display_content (snd ?r) ''COM1''
          = Some (replicate (nat (display_lines default_config)) [])"
    by blast
  with a b show ?thesis by (simp add: default_config_def numeral_2_eq_2)
qed

section \<open>Fault injection only for the listed kinds\<close>

lemma transmit_not_simulated:
  "transmit p pn dat c \<noteq> Inl (Exception (CHR ''S'' # rest))"
  by (cases p)
     (auto simp: transmit_def send_serial_data_def send_usb_data_def
        send_usb_serial_data_def send_network_data_def not_open_error_def
        usb_not_connected_error_def usb_serial_not_connected_error_def
        network_not_connected_error_def Let_def)

lemma float_of_int_error:
  "float_of_int n = Inl e \<Longrightarrow> e = OverflowError ''int too large to convert to float''"
  by (auto simp: float_of_int_def split: pyfloat.splits)

lemma float_div_error:
  "float_div a b = Inl e \<Longrightarrow> e = ZeroDivisionError ''float division by zero''"
  by (auto simp: float_div_def split: if_splits)

lemma update_average_latency_error:
  assumes "update_average_latency st lat = Inl e"
  shows "e = OverflowError ''int too large to convert to float''
       \<or> e = ZeroDivisionError ''float division by zero''"
  using assms float_of_int_error float_div_error
  by (auto simp: update_average_latency_def then_do_def split: if_splits sum.splits)

lemma update_average_latency_not_exception:
  "update_average_latency st lat \<noteq> Inl (Exception x)"
  using update_average_latency_error [of st lat "Exception x"] by auto

lemma send_message_fst:
  "fst (send_message s pn m c d1 d2 lat) = fst (send_message_body s pn m c d1 d2 lat)"
  by (auto simp: send_message_def Let_def split: prod.splits sum.splits)

lemma open_port_fst:
  "fst (open_port s pn c d) = fst (open_port_body s pn c d)"
  by (auto simp: open_port_def split: prod.splits sum.splits)

lemma send_message_no_timeout:
  assumes "TIMEOUT \<notin> set (simulated_failures c)"
  shows "fst (send_message s pn m c d1 d2 lat) \<noteq> Inl (Exception ''Simulated timeout'')"
  using assms transmit_not_simulated update_average_latency_not_exception
  by (auto simp: send_message_fst send_message_body_def should_simulate_failure_def Let_def
        split: option.splits sum.splits)

lemma send_message_no_corruption:
  assumes "CORRUPTION \<notin> set (simulated_failures c)"
  shows "fst (send_message s pn m c d1 d2 lat) \<noteq> Inl (Exception ''Simulated data corruption'')"
  using assms transmit_not_simulated update_average_latency_not_exception
  by (auto simp: send_message_fst send_message_body_def should_simulate_failure_def Let_def
        split: option.splits sum.splits)

lemma open_port_no_disconnect:
  assumes "DISCONNECT \<notin> set (simulated_failures c)"
  shows "fst (open_port s pn c d)
           \<noteq> Inl (Exception (''Simulated connection failure on '' @ pn))"
  using assms
  by (auto simp: open_port_fst open_port_body_def should_simulate_failure_def Let_def
        create_virtual_port_def new_port_def
        split: option.splits sum.splits prod.splits if_splits connection_type.splits)

lemma draws_unused:
  assumes "simulated_failures c = []"
  shows "send_message s pn m c d1 d2 lat = send_message s pn m c e1 e2 lat"
    and "open_port s pn c d = open_port s pn c e"
proof -
  have sf: "\<And>ft x. should_simulate_failure c ft x = False"
    using assms by (simp add: should_simulate_failure_def)
  show "send_message s pn m c d1 d2 lat = send_message s pn m c e1 e2 lat"
    unfolding send_message_def send_message_body_def sf ..
  show "open_port s pn c d = open_port s pn c e"
    unfolding open_port_def open_port_body_def sf ..
qed

text \<open>
  Claim C10. A failure kind that is not in \<open>simulated_failures\<close> is never simulated,
  whatever the draw and the error rate: \<open>_should_simulate_failure\<close> is false for it,
  \<open>send_message\<close> does not fail with the simulated timeout or corruption, and
  \<open>open_port\<close> does not fail with the simulated connection failure. With an empty list
  the draws are not consulted at all: the results do not depend on them.
\<close>

theorem unlisted_failure_never_simulated:
  "(ft \<notin> set (simulated_failures c) \<longrightarrow> \<not> should_simulate_failure c ft draw)
   \<and> (TIMEOUT \<notin> set (simulated_failures c) \<longrightarrow>
        fst (send_message s pn m c d1 d2 lat) \<noteq> Inl (Exception ''Simulated timeout''))
   \<and> (CORRUPTION \<notin> set (simulated_failures c) \<longrightarrow>
        fst (send_message s pn m c d1 d2 lat) \<noteq> Inl (Exception ''Simulated data corruption''))
   \<and> (DISCONNECT \<notin> set (simulated_failures c) \<longrightarrow>
        fst (open_port s pn c d)
          \<noteq> Inl (Exception (''Simulated connection failure on '' @ pn)))
   \<and> (simulated_failures c = [] \<longrightarrow>
        send_message s pn m c d1 d2 lat = send_message s pn m c e1 e2 lat
        \<and> open_port s pn c d = open_port s pn c e)"
  using send_message_no_timeout [of c s pn m d1 d2 lat]
    send_message_no_corruption [of c s pn m d1 d2 lat]
    open_port_no_disconnect [of c s pn d]
    draws_unused(1) [of c s pn m d1 d2 lat e1 e2] draws_unused(2) [of c s pn d e]
  by (simp add: should_simulate_failure_def)

text \<open>An error rate of 100 with an empty list: both calls succeed.\<close>

theorem unlisted_failure_never_simulated_witness:
  "\<not> should_simulate_failure (default_config\<lparr>error_rate := 100\<rparr>) TIMEOUT 0
   \<and> fst (send_message opened_default ''COM1'' ''Hello''
            (default_config\<lparr>error_rate := 100\<rparr>) 0 0 (Finite 5))
       \<noteq> Inl (Exception ''Simulated timeout'')
   \<and> fst (send_message opened_default ''COM1'' ''Hello''
            (default_config\<lparr>error_rate := 100\<rparr>) 0 0 (Finite 5))
       \<noteq> Inl (Exception ''Simulated data corruption'')
   \<and> fst (open_port new_emulator ''COM1'' (default_config\<lparr>error_rate := 100\<rparr>) 0)
       \<noteq> Inl (Exception (''Simulated connection failure on '' @ ''COM1''))
   \<and> \<not> isl (fst (send_message opened_default ''COM1'' ''Hello''
            (default_config\<lparr>error_rate := 100\<rparr>) 0 0 (Finite 5)))
   \<and> \<not> isl (fst (open_port new_emulator ''COM1'' (default_config\<lparr>error_rate := 100\<rparr>) 0))"
proof -
  let ?c = "default_config\<lparr>error_rate := 100\<rparr>"
  have e: "simulated_failures ?c = []" by (simp add: default_config_def)
  then have n: "TIMEOUT \<notin> set (simulated_failures ?c)"
    "CORRUPTION \<notin> set (simulated_failures ?c)" "DISCONNECT \<notin> set (simulated_failures ?c)"
    by simp_all
  have ok: "\<not> isl (fst (send_message opened_default ''COM1'' ''Hello'' ?c 0 0 (Finite 5)))"
    "\<not> isl (fst (open_port new_emulator ''COM1'' ?c 0))"
    by (simp_all add: emulator_defs)
  from unlisted_failure_never_simulated
         [of TIMEOUT ?c 0 opened_default "''COM1''" "''Hello''" 0 0 "Finite 5" 0 0 0 0]
       unlisted_failure_never_simulated
         [of TIMEOUT ?c 0 new_emulator "''COM1''" "''Hello''" 0 0 "Finite 5" 0 0 0 0]
       n ok
  show ?thesis by blast
qed

section \<open>Opening a port and sending on it\<close>

text \<open>The variants that \<open>open_port\<close> handles: the flag that \<open>send_message\<close> tests is
  set after a successful \<open>open_port\<close> (also when the port was closed before), and the next
  \<open>send_message\<close> is not rejected for a port that is not open or not connected.\<close>

lemma open_connection_flag:
  "\<not> is_USBSerialDisplayMock (open_connection p) \<Longrightarrow> send_flag (open_connection p)"
  by (cases p) (simp_all add: open_connection_def send_flag_def)

lemma open_port_stores:
  assumes "open_port s pn c d = (Inr b, s1)"
  shows "\<exists>p. ports s1 pn = Some (open_connection p)"
  using assms
  by (auto simp: open_port_def open_port_body_def emit_def Let_def
        split: prod.splits sum.splits option.splits if_splits)

lemma open_port_sets_flag:
  assumes "open_port s pn c d = (Inr b, s1)"
  shows "\<exists>p. ports s1 pn = Some p \<and> (\<not> is_USBSerialDisplayMock p \<longrightarrow> send_flag p)"
  using open_port_stores [OF assms] open_connection_flag by auto

lemma transmit_flag_set:
  assumes "\<not> is_USBSerialDisplayMock p" and "send_flag p"
  shows "transmit p pn dat c = Inl e \<Longrightarrow> e = ZeroDivisionError ''float division by zero''"
  using assms
  by (cases p)
     (auto simp: transmit_def send_serial_data_def send_usb_data_def send_network_data_def
        send_flag_def Let_def split: if_splits)

lemma send_flag_accepts:
  assumes "ports s pn = Some p" and "\<not> is_USBSerialDisplayMock p" and "send_flag p"
  shows "fst (send_message s pn m c d1 d2 lat) \<noteq> Inl (not_open_error pn)
       \<and> fst (send_message s pn m c d1 d2 lat) \<noteq> Inl (usb_not_connected_error pn)
       \<and> fst (send_message s pn m c d1 d2 lat) \<noteq> Inl (network_not_connected_error pn)"
  using assms transmit_flag_set [OF assms(2,3)]
  by (auto simp: send_message_fst send_message_body_def Let_def
        update_average_latency_not_exception not_open_error_def usb_not_connected_error_def network_not_connected_error_def
        split: sum.splits if_splits)

lemma opened_port_accepts_send:
  assumes "open_port s pn c d = (Inr b, s1)" and "ports s1 pn = Some p"
    and "\<not> is_USBSerialDisplayMock p"
  shows "fst (send_message s1 pn m c d1 d2 lat) \<noteq> Inl (not_open_error pn)
       \<and> fst (send_message s1 pn m c d1 d2 lat) \<noteq> Inl (usb_not_connected_error pn)
       \<and> fst (send_message s1 pn m c d1 d2 lat) \<noteq> Inl (network_not_connected_error pn)"
proof -
  from open_port_sets_flag [OF assms(1)] assms(2,3) have "send_flag p" by auto
  with assms(2,3) show ?thesis by (rule send_flag_accepts)
qed

text \<open>
  Claim C3, at the input where the code departs from it. A new emulator, a config of
  connection type \<open>usb_serial\<close>: \<open>open_port\<close> succeeds, the port it created still has
  both flags false, and the \<open>send_message\<close> that follows fails with the not-connected
  error of the USB-serial variant.
\<close>

theorem usb_serial_open_then_send_fails:
  "fst (open_port new_emulator ''COM1'' (default_config\<lparr>connection_type := USB_SERIAL\<rparr>) 0)
     = Inr True
   \<and> ports (snd (open_port new_emulator ''COM1''
                   (default_config\<lparr>connection_type := USB_SERIAL\<rparr>) 0)) ''COM1''
       = Some (USBSerialDisplayMock False False [] 0 0)
   \<and> fst (send_message
            (snd (open_port new_emulator ''COM1''
                    (default_config\<lparr>connection_type := USB_SERIAL\<rparr>) 0))
            ''COM1'' ''Hello'' (default_config\<lparr>connection_type := USB_SERIAL\<rparr>) 0 0 (Finite 5))
       = Inl (usb_serial_not_connected_error ''COM1'')"
  by (simp add: emulator_defs)

section \<open>Closing a port\<close>

text \<open>
  Claim C8, as amended. \<open>close_port\<close> never raises. For an unknown port name the state
  is unchanged. For a known port: a serial, USB or network port has its open or
  connected flag false afterwards; the port is not in the active-connection map
  afterwards, and the map is otherwise unchanged; the active-connection counter is
  decremented by one if the port was in the map and unchanged if it was not; one
  \<open>port-closed\<close> event is emitted.
\<close>

theorem close_port_effect:
  "fst (close_port s pn) = Inr ()
   \<and> (ports s pn = None \<longrightarrow> snd (close_port s pn) = s)
   \<and> (\<forall>p. ports s pn = Some p \<longrightarrow>
         (\<not> is_USBSerialDisplayMock p \<longrightarrow>
            (\<exists>q. ports (snd (close_port s pn)) pn = Some q \<and> \<not> send_flag q))
         \<and> active_connections (snd (close_port s pn)) = (active_connections s)(pn := None)
         \<and> active_connections_count (stats (snd (close_port s pn)))
             = active_connections_count (stats s)
               - (if pn \<in> dom (active_connections s) then 1 else 0)
         \<and> emitted (snd (close_port s pn)) = emitted s @ [PortClosed pn])"
  by (auto simp: close_port_def close_port_body_def close_connection_def emit_def Let_def
        send_flag_def split: option.splits port.splits)

theorem close_port_effect_witness:
  "fst (close_port opened_default ''COM1'') = Inr ()
   \<and> ports opened_default ''COM1'' = Some (SerialPortMock ''COM1'' True [] 0)
   \<and> ports (snd (close_port opened_default ''COM1'')) ''COM1''
       = Some (SerialPortMock ''COM1'' False [] 0)
   \<and> active_connections opened_default ''COM1'' = Some SERIAL
   \<and> active_connections (snd (close_port opened_default ''COM1'')) ''COM1'' = None
   \<and> active_connections_count (stats opened_default) = 1
   \<and> active_connections_count (stats (snd (close_port opened_default ''COM1''))) = 0
   \<and> emitted (snd (close_port opened_default ''COM1''))
       = emitted opened_default @ [PortClosed ''COM1'']
   \<and> snd (close_port new_emulator ''COM1'') = new_emulator"
proof -
  have p: "ports opened_default ''COM1'' = Some (SerialPortMock ''COM1'' True [] 0)"
    and a: "active_connections opened_default ''COM1'' = Some SERIAL"
    and n: "active_connections_count (stats opened_default) = 1"
    and q: "ports (snd (close_port opened_default ''COM1'')) ''COM1''
       = Some (SerialPortMock ''COM1'' False [] 0)"
    and e: "ports new_emulator ''COM1'' = None"
    by (simp_all add: emulator_defs)
  from a have d: "''COM1'' \<in> dom (active_connections opened_default)" by blast
  from close_port_effect [of opened_default "''COM1''"] p a n d q
    close_port_effect [of new_emulator "''COM1''"] e
  show ?thesis by simp
qed

text \<open>A port that was created and never opened: it is known, and closing it leaves the
  counter as it was.\<close>

theorem close_inactive_port_counterexample:
  "ports (snd (create_virtual_port new_emulator default_config)) ''COM1'' \<noteq> None
   \<and> active_connections_count
       (stats (snd (close_port (snd (create_virtual_port new_emulator default_config))
                      ''COM1'')))
     = active_connections_count
         (stats (snd (create_virtual_port new_emulator default_config)))"
  by (simp add: emulator_defs)

section \<open>The running average of the latency\<close>














section \<open>The success rate of the report\<close>

text \<open>
  Claim C7, as amended. With at least one accumulated result, \<open>generate_report\<close>
  returns a summary with the counts of all, of the passed and of the failed results, and
  a \<open>success_rate\<close> of \<open>passed_tests / total_tests * 100\<close>. With no result it returns
  the error answer \<open>No test results available\<close>, which has no summary.
\<close>

theorem report_success_rate:
  "(results r = [] \<longrightarrow> generate_report r = ErrorReport ''No test results available'')
   \<and> (results r \<noteq> [] \<longrightarrow>
        (\<exists>sm. generate_report r = Report sm (results r)
           \<and> total_tests sm = int (length (results r))
           \<and> passed_tests sm = int (length (filter (\<lambda>x. tr_status x = PASSED) (results r)))
           \<and> failed_tests sm = int (length (filter (\<lambda>x. tr_status x = FAILED) (results r)))
           \<and> success_rate sm = of_int (passed_tests sm) / of_int (total_tests sm) * 100))"
  by (simp add: generate_report_def Let_def)

text \<open>Three passed out of five give 60.\<close>

theorem report_success_rate_witness:
  "\<exists>sm. generate_report
          \<lparr>serial_emulator = new_emulator,
           results = [result_with PASSED, result_with FAILED, result_with PASSED,
                      result_with FAILED, result_with PASSED]\<rparr>
        = Report sm [result_with PASSED, result_with FAILED, result_with PASSED,
                     result_with FAILED, result_with PASSED]
      \<and> total_tests sm = 5 \<and> passed_tests sm = 3 \<and> failed_tests sm = 2
      \<and> success_rate sm = 60"
  using report_success_rate
    [of "\<lparr>serial_emulator = new_emulator,
          results = [result_with PASSED, result_with FAILED, result_with PASSED,
                     result_with FAILED, result_with PASSED]\<rparr>"]
  by (auto simp: result_with_def)

text \<open>No results: the answer is the error dictionary, not a summary with a success
  rate of 0.\<close>

theorem empty_report_counterexample:
  "generate_report \<lparr>serial_emulator = new_emulator, results = []\<rparr>
     = ErrorReport ''No test results available''"
  by (simp add: generate_report_def)

section \<open>The scenario runner and the outcome of a step\<close>

lemmas runner_defs =
  execute_step_def execute_send_step_def execute_wait_step_def execute_clear_step_def
  execute_validate_step_def setup_display_def cleanup_display_def TestStep_def
  clear_display_step_def send_without_data_def second_step_fails_def
  basic_display_test_def quiet_env_def new_runner_def dict_attribute_def run_scenario_def

text \<open>After a successful set-up, the loop of \<open>run_scenario\<close> is left by the exception of
  \<open>step_result.success\<close> as soon as the outcome of the first step is recorded, whatever
  that outcome is; only a scenario without steps passes.\<close>

lemma run_steps_first_step:
  "run_steps em c envs i (st # rest) res =
     (Inl (AttributeError ([CHR 0x27] @ ''dict'' @ [CHR 0x27] @ '' object has no attribute ''
             @ [CHR 0x27] @ ''success'' @ [CHR 0x27])),
      res\<lparr>tr_step_results := tr_step_results res @ [fst (execute_step em st c (envs i))]\<rparr>,
      snd (execute_step em st c (envs i)))"
  by (simp add: dict_attribute_def Let_def split: prod.splits)

lemma run_scenario_after_first_step:
  assumes "setup_display (serial_emulator r) c (setup_draw env) = (Inr b, em0)"
    and "steps sc = st # rest"
  shows "tr_status (fst (run_scenario r sc c env)) = FAILED
       \<and> tr_step_results (fst (run_scenario r sc c env))
           = [fst (execute_step em0 st c (step_envs env 0))]
       \<and> tr_error_message (fst (run_scenario r sc c env))
           = Some ([CHR 0x27] @ ''dict'' @ [CHR 0x27] @ '' object has no attribute ''
                   @ [CHR 0x27] @ ''success'' @ [CHR 0x27])"
  using assms
  by (simp add: run_scenario_def Let_def run_steps_first_step del: run_steps.simps)

lemma run_scenario_no_steps:
  assumes "setup_display (serial_emulator r) c (setup_draw env) = (Inr b, em0)"
    and "steps sc = []"
  shows "tr_status (fst (run_scenario r sc c env)) = PASSED"
  using assms by (simp add: run_scenario_def Let_def)

text \<open>
  Claim C5, at the inputs where the code departs from it. A scenario of three steps of
  which the second fails: the result is \<open>failed\<close>, but with one recorded outcome, that
  of the first step, which succeeded, and with the text of the \<open>AttributeError\<close> as
  \<open>error_message\<close>, not the text of the second step. The built-in basic scenario, of
  which every step would succeed: the result is \<open>failed\<close> with one recorded outcome, not
  \<open>passed\<close>.
\<close>

theorem run_scenario_stops_after_first_step:
  "length (steps second_step_fails) = 3
   \<and> tr_status (fst (run_scenario new_runner second_step_fails default_config quiet_env))
       = FAILED
   \<and> map sr_success (tr_step_results
         (fst (run_scenario new_runner second_step_fails default_config quiet_env)))
       = [True]
   \<and> tr_error_message
         (fst (run_scenario new_runner second_step_fails default_config quiet_env))
       = Some ([CHR 0x27] @ ''dict'' @ [CHR 0x27] @ '' object has no attribute ''
               @ [CHR 0x27] @ ''success'' @ [CHR 0x27])
   \<and> length (steps basic_display_test) = 3
   \<and> tr_status (fst (run_scenario new_runner basic_display_test default_config quiet_env))
       = FAILED
   \<and> map sr_success (tr_step_results
         (fst (run_scenario new_runner basic_display_test default_config quiet_env)))
       = [True]"
  by (simp add: runner_defs emulator_defs)

section \<open>Setting a logger up twice\<close>

lemma setup_logger_attaches:
  assumes "setup_logger reg name level file ok = (Inr n, reg1)"
  shows "\<exists>l. reg1 name = Some l \<and> lg_handlers l \<noteq> []"
  using assms
  by (auto simp: setup_logger_def getLogger_def Let_def
        split: option.splits if_splits prod.splits)

lemma setup_logger_again:
  assumes "reg name = Some l" and "lg_handlers l \<noteq> []"
  shows "setup_logger reg name level file ok =
           (case logging_level (py_upper level) of
              None \<Rightarrow>
                (Inl (AttributeError (''module '' @ [CHR 0x27] @ ''logging'' @ [CHR 0x27]
                        @ '' has no attribute '' @ [CHR 0x27] @ py_upper level
                        @ [CHR 0x27])), reg)
            | Some lv \<Rightarrow> (Inr name, reg(name \<mapsto> l\<lparr>lg_level := lv\<rparr>)))"
  using assms
  by (auto simp: setup_logger_def getLogger_def Let_def split: option.splits)

text \<open>
  Claim C9, as amended. After a first \<open>setup_logger\<close> for a name has returned, a second
  call with the same name, whatever its level and log file, returns the same logger and
  adds no handler; it sets the level of the logger to the level passed, and changes
  nothing else, so the loggers are unchanged exactly when the level passed is the level
  the logger has. With a level name that is not a level the second call raises and
  changes nothing.
\<close>

theorem repeated_setup_logger:
  assumes "setup_logger reg name level1 file1 ok1 = (Inr n1, reg1)"
  shows "\<exists>l. reg1 name = Some l \<and> lg_handlers l \<noteq> []
           \<and> (\<forall>lv. logging_level (py_upper level2) = Some lv \<longrightarrow>
                 setup_logger reg1 name level2 file2 ok2
                   = (Inr name, reg1(name \<mapsto> l\<lparr>lg_level := lv\<rparr>)))
           \<and> (logging_level (py_upper level2) = Some (lg_level l) \<longrightarrow>
                 setup_logger reg1 name level2 file2 ok2 = (Inr name, reg1))
           \<and> (logging_level (py_upper level2) = None \<longrightarrow>
                 isl (fst (setup_logger reg1 name level2 file2 ok2))
                 \<and> snd (setup_logger reg1 name level2 file2 ok2) = reg1)"
proof -
  from setup_logger_attaches [OF assms] obtain l where
    l: "reg1 name = Some l" "lg_handlers l \<noteq> []" by blast
  have same: "reg1(name \<mapsto> l\<lparr>lg_level := lg_level l\<rparr>) = reg1"
    using l(1) by (simp add: fun_upd_idem)
  note again = setup_logger_again [of reg1 name l level2 file2 ok2, OF l]
  show ?thesis
    using l same by (auto simp: again)
qed

lemmas logger_defs =
  setup_logger_def getLogger_def logging_level_def py_upper_def py_upper_char_def Let_def
  char_of_def bit_Suc_0_iff

theorem repeated_setup_logger_witness:
  "snd (setup_logger Map.empty ''app'' ''INFO'' None True) ''app''
     = Some \<lparr>lg_level = 20, lg_handlers = [StreamHandler]\<rparr>
   \<and> setup_logger (snd (setup_logger Map.empty ''app'' ''INFO'' None True))
        ''app'' ''debug'' (Some ''app.log'') True
     = (Inr ''app'',
        (snd (setup_logger Map.empty ''app'' ''INFO'' None True))
          (''app'' \<mapsto> \<lparr>lg_level = 10, lg_handlers = [StreamHandler]\<rparr>))
   \<and> setup_logger (snd (setup_logger Map.empty ''app'' ''INFO'' None True))
        ''app'' ''info'' (Some ''app.log'') True
     = (Inr ''app'', snd (setup_logger Map.empty ''app'' ''INFO'' None True))"
proof -
  let ?reg1 = "snd (setup_logger Map.empty ''app'' ''INFO'' None True)"
  have f: "setup_logger Map.empty ''app'' ''INFO'' None True = (Inr ''app'', ?reg1)"
    by (simp add: logger_defs)
  have l: "?reg1 ''app'' = Some \<lparr>lg_level = 20, lg_handlers = [StreamHandler]\<rparr>"
    by (simp add: logger_defs)
  have d: "logging_level (py_upper ''debug'') = Some 10"
    and i: "logging_level (py_upper ''info'') = Some 20"
    by (simp_all add: logger_defs)
  from repeated_setup_logger [OF f, of "''debug''" "Some ''app.log''" True]
       repeated_setup_logger [OF f, of "''info''" "Some ''app.log''" True] l d i
  show ?thesis by auto
qed

text \<open>First \<open>INFO\<close>, then \<open>DEBUG\<close>: the second call returns the logger with its level
  changed from 20 to 10.\<close>

theorem repeated_setup_logger_counterexample:
  "fst (setup_logger (snd (setup_logger Map.empty ''app'' ''INFO'' None True))
          ''app'' ''DEBUG'' None True) = Inr ''app''
   \<and> map_option lg_level (snd (setup_logger Map.empty ''app'' ''INFO'' None True) ''app'')
       = Some 20
   \<and> map_option lg_level
       (snd (setup_logger (snd (setup_logger Map.empty ''app'' ''INFO'' None True))
               ''app'' ''DEBUG'' None True) ''app'')
       = Some 10"
  by (simp add: logger_defs)

section \<open>Saving the built-in scenarios and loading them again\<close>

text \<open>
  Claim C4, at the input where the code departs from it. \<open>save_to_yaml\<close> of the four
  built-in scenarios leaves an empty file, because \<open>yaml.dump\<close> is called with the
  keyword \<open>ensure_ascii\<close>, which it does not have, and the exception is caught and
  logged; \<open>load_from_yaml\<close> of that file returns the empty list.
\<close>

theorem yaml_round_trip_is_empty:
  "length create_default_scenarios = 4
   \<and> save_to_yaml fs create_default_scenarios path path = Some EmptyFile
   \<and> load_from_yaml (save_to_yaml fs create_default_scenarios path) path = []"
  by (simp add: create_default_scenarios_def save_to_yaml_def yaml_dump_def
        yaml_dump_keywords_def load_from_yaml_def yaml_safe_load_def py_get_def Let_def)

end
